theory Spec2Isabelle
  imports Complex_Main "HOL-Library.Word" "HOL-Library.AList"
begin

section \<open>Data model\<close>

text \<open>
  The package \<open>redisx\<close> holds two generic adapters over a go-redis client: \<open>HashMap[K, V]\<close>
  (hash_map.go) and \<open>ZQueue[T]\<close> (z_queue.go). Go's \<open>int64\<close> and \<open>time.Duration\<close> are
  64-bit words read as two's complement.
\<close>

type_synonym int64 = "64 word"
type_synonym Duration = int64

text \<open>
  A \<open>float64\<close> is modelled by the rational number it denotes (every finite double is a
  rational), with the two infinities and NaN beside it. Only conversions between \<open>int64\<close>
  and \<open>float64\<close> occur in the package; no floating-point arithmetic is performed by it.
\<close>

datatype float64 = Finite rat | PosInf | NegInf | NaN

text \<open>
  Go's \<open>error\<close> values: the go-redis sentinel \<open>redis.Nil\<close>, a failed conversion of
  \<open>typex\<close>, and any other failure reported by the client.
\<close>

datatype error = RedisNil | ConversionError | RemoteError string

text \<open>\<open>redis.Z\<close>: a score and a member; members read from the store are strings.\<close>

datatype Z = Z (Z_Score: float64) (Z_Member: string)

text \<open>\<open>redis.ZRangeBy\<close>. The fields \<open>Min\<close> and \<open>Max\<close> are strings in go-redis.\<close>

record ZRangeBy =
  Min_str :: string
  Max_str :: string
  Offset :: int64
  Count :: int64

text \<open>\<open>Element[T]\<close> of z_queue.go.\<close>

record 't Element =
  Member :: 't
  Score :: int64

subsection \<open>The go-redis client\<close>

text \<open>
  The commands the adapters queue on a pipeline. \<open>HSet\<close> carries the field/value pairs it
  sends: one pair from \<open>Set\<close>, the pairs of the map from \<open>SetMulti\<close>.
\<close>

datatype cmd =
    HSet string "(string \<times> string) list"
  | Expire string Duration
  | HIncrBy string string int64
  | HIncrByFloat string string float64
  | ZAdd string "Z list"

text \<open>The value a queued command holds after the pipeline has run.\<close>

datatype reply = IntReply int64 | FloatReply float64 | BoolReply bool | NoReply

text \<open>
  \<open>redis.UniversalClient\<close> is an external collaborator: it is a parameter of the model, a
  record of the methods the adapters call, each a transformer of the remote state \<open>'s\<close>
  returning Go's pair of result and error. \<open>Process\<close> stands for one round trip of a
  pipeline: it receives the queued commands and yields one outcome per command.
\<close>

record 's UniversalClient =
  Process :: "cmd list \<Rightarrow> 's \<Rightarrow> (reply \<times> error option) list \<times> 's"
  HGet :: "string \<Rightarrow> string \<Rightarrow> 's \<Rightarrow> (string \<times> error option) \<times> 's"
  HMGet :: "string \<Rightarrow> string list \<Rightarrow> 's \<Rightarrow> (string option list \<times> error option) \<times> 's"
  HGetAll :: "string \<Rightarrow> 's \<Rightarrow> ((string \<times> string) list \<times> error option) \<times> 's"
  HKeys :: "string \<Rightarrow> 's \<Rightarrow> (string list \<times> error option) \<times> 's"
  HVals :: "string \<Rightarrow> 's \<Rightarrow> (string list \<times> error option) \<times> 's"
  ZRem :: "string \<Rightarrow> string list \<Rightarrow> 's \<Rightarrow> error option \<times> 's"
  ZRangeByScoreWithScores :: "string \<Rightarrow> ZRangeBy \<Rightarrow> 's \<Rightarrow> (Z list \<times> error option) \<times> 's"
  ZRevRangeByScoreWithScores :: "string \<Rightarrow> ZRangeBy \<Rightarrow> 's \<Rightarrow> (Z list \<times> error option) \<times> 's"
  ZPopMin :: "string \<Rightarrow> int64 \<Rightarrow> 's \<Rightarrow> (Z list \<times> error option) \<times> 's"
  ZPopMax :: "string \<Rightarrow> int64 \<Rightarrow> 's \<Rightarrow> (Z list \<times> error option) \<times> 's"
  ZScore :: "string \<Rightarrow> string \<Rightarrow> 's \<Rightarrow> (float64 \<times> error option) \<times> 's"

text \<open>
  A pipeline is the list of commands queued so far. \<open>Exec\<close> of go-redis sends them in one
  round trip and returns the commands with the error of the first command that failed;
  on an empty pipeline it returns at once.
\<close>

definition Pipeline :: "cmd list" where
  "Pipeline = []"

fun cmdsFirstErr :: "(reply \<times> error option) list \<Rightarrow> error option" where
  "cmdsFirstErr [] = None"
| "cmdsFirstErr ((v, None) # cmds) = cmdsFirstErr cmds"
| "cmdsFirstErr ((v, Some err) # cmds) = Some err"

definition Exec ::
  "'s UniversalClient \<Rightarrow> cmd list \<Rightarrow> 's \<Rightarrow> ((reply \<times> error option) list \<times> error option) \<times> 's"
where
  "Exec cli pipe r =
     (if pipe = [] then (([], None), r)
      else (let (cmds, r') = Process cli pipe r in ((cmds, cmdsFirstErr cmds), r')))"

text \<open>\<open>IntCmd.Val\<close> and \<open>FloatCmd.Val\<close> of the first queued command.\<close>

fun IntCmd_Val :: "(reply \<times> error option) list \<Rightarrow> int64" where
  "IntCmd_Val ((IntReply n, err) # cmds) = n"
| "IntCmd_Val cmds = 0"

fun FloatCmd_Val :: "(reply \<times> error option) list \<Rightarrow> float64" where
  "FloatCmd_Val ((FloatReply x, err) # cmds) = x"
| "FloatCmd_Val cmds = Finite 0"

subsection \<open>The package typex\<close>

text \<open>
  The adapters call three functions of the package \<open>utils/typex\<close>: \<open>ToString(v)\<close>,
  \<open>ToAnyE[T](s)\<close> returning a value and an error, and \<open>ToAny[T](s)\<close> returning a value only.
  They are parameters of the model, one record per type at which an adapter uses them.
\<close>

record 't typex =
  ToString :: "'t \<Rightarrow> string"
  ToAnyE :: "string \<Rightarrow> 't \<times> error option"
  ToAny :: "string \<Rightarrow> 't"

subsection \<open>Adapters and the state they run in\<close>

text \<open>
  \<open>HashMap[K, V]\<close> has the fields \<open>Key\<close> and \<open>Cli\<close>; \<open>ZQueue[T]\<close> has \<open>Key\<close>, \<open>Cli\<close> and
  \<open>Desc\<close>, written here as an extension so that both share the field names of the source.
  Every method has a pointer receiver: it runs in a state made of the adapter it points to
  (\<open>self\<close>) and the remote state behind the client (\<open>remote\<close>), and returns the new state.
\<close>

record 's HashMap =
  Key :: string
  Cli :: "'s UniversalClient"

record 's ZQueue = "'s HashMap" +
  Desc :: bool

record ('a, 's) world =
  self :: 'a
  remote :: 's

section \<open>hash\_map.go\<close>

definition NewHashMap :: "'s UniversalClient \<Rightarrow> string \<Rightarrow> 's HashMap" where
  "NewHashMap cli key = \<lparr>Key = key, Cli = cli\<rparr>"

definition Set ::
  "'k typex \<Rightarrow> 'v typex \<Rightarrow> 'k \<Rightarrow> 'v \<Rightarrow> Duration \<Rightarrow> ('s HashMap, 's) world
    \<Rightarrow> error option \<times> ('s HashMap, 's) world"
where
  "Set tk tv field value expire w =
     (let h = self w;
          pipe = Pipeline;
          pipe = pipe @ [HSet (Key h) [(ToString tk field, ToString tv value)]];
          pipe = (if 0 < sint expire then pipe @ [Expire (Key h) expire] else pipe);
          ((cmds, err), r) = Exec (Cli h) pipe (remote w)
      in (err, w\<lparr>remote := r\<rparr>))"

text \<open>
  \<open>SetMulti\<close> receives a Go map, given here as the list of its entries in the order the
  \<open>range\<close> loop visits them; \<open>values\<close> is the map it builds, one entry per encoded key.
\<close>

definition SetMulti ::
  "'k typex \<Rightarrow> 'v typex \<Rightarrow> ('k \<times> 'v) list \<Rightarrow> Duration \<Rightarrow> ('s HashMap, 's) world
    \<Rightarrow> error option \<times> ('s HashMap, 's) world"
where
  "SetMulti tk tv flds expire w =
     (if length flds = 0 then (None, w)
      else
        (let h = self w;
             values = foldl (\<lambda>values (k, v). AList.update (ToString tk k) (ToString tv v) values)
                        [] flds;
             pipe = Pipeline;
             pipe = pipe @ [HSet (Key h) values];
             pipe = (if 0 < sint expire then pipe @ [Expire (Key h) expire] else pipe);
             ((cmds, err), r) = Exec (Cli h) pipe (remote w)
         in (err, w\<lparr>remote := r\<rparr>)))"

text \<open>\<open>Get\<close>: \<open>zero\<close> is the zero value of \<open>V\<close> (\<open>var res V\<close>).\<close>

definition Get ::
  "'k typex \<Rightarrow> 'v typex \<Rightarrow> 'v \<Rightarrow> 'k \<Rightarrow> ('s HashMap, 's) world
    \<Rightarrow> ('v \<times> error option) \<times> ('s HashMap, 's) world"
where
  "Get tk tv zero field w =
     (let h = self w;
          res = zero;
          ((val, err), r) = HGet (Cli h) (Key h) (ToString tk field) (remote w);
          w' = w\<lparr>remote := r\<rparr>
      in (case err of
            Some e \<Rightarrow> if e = RedisNil then ((res, None), w') else ((res, Some e), w')
          | None \<Rightarrow> (ToAnyE tv val, w')))"

text \<open>
  The loop of \<open>GetMulti\<close> over the reply, \<open>i\<close> the index. A result map is an association
  list; the \<open>nil\<close> map returned with an error is the empty one. \<open>fields[i]\<close> beyond the
  slice is a run-time panic, the value \<open>None\<close>.
\<close>

fun GetMulti_loop ::
  "'v typex \<Rightarrow> 'k list \<Rightarrow> nat \<Rightarrow> string option list \<Rightarrow> ('k \<times> 'v) list
    \<Rightarrow> (('k \<times> 'v) list \<times> error option) option"
where
  "GetMulti_loop tv flds i [] result = Some (result, None)"
| "GetMulti_loop tv flds i (None # vals) result = GetMulti_loop tv flds (Suc i) vals result"
| "GetMulti_loop tv flds i (Some val # vals) result =
     (case ToAnyE tv val of
        (v, Some err) \<Rightarrow> Some ([], Some err)
      | (v, None) \<Rightarrow>
          if i < length flds
          then GetMulti_loop tv flds (Suc i) vals (AList.update (flds ! i) v result)
          else None)"

definition GetMulti ::
  "'k typex \<Rightarrow> 'v typex \<Rightarrow> 'k list \<Rightarrow> ('s HashMap, 's) world
    \<Rightarrow> ((('k \<times> 'v) list \<times> error option) \<times> ('s HashMap, 's) world) option"
where
  "GetMulti tk tv flds w =
     (if length flds = 0 then Some (([], None), w)
      else
        (let h = self w;
             fieldStrs = foldl (\<lambda>fieldStrs field. fieldStrs @ [ToString tk field]) [] flds;
             ((vals, err), r) = HMGet (Cli h) (Key h) fieldStrs (remote w);
             w' = w\<lparr>remote := r\<rparr>
         in (case err of
               Some e \<Rightarrow> Some (([], Some e), w')
             | None \<Rightarrow>
                 (case GetMulti_loop tv flds 0 vals [] of
                    None \<Rightarrow> None
                  | Some res \<Rightarrow> Some (res, w')))))"

fun GetAll_loop ::
  "'k typex \<Rightarrow> 'v typex \<Rightarrow> (string \<times> string) list \<Rightarrow> ('k \<times> 'v) list
    \<Rightarrow> ('k \<times> 'v) list \<times> error option"
where
  "GetAll_loop tk tv [] result = (result, None)"
| "GetAll_loop tk tv ((k, v) # vals) result =
     (case ToAnyE tk k of
        (key, Some err) \<Rightarrow> ([], Some err)
      | (key, None) \<Rightarrow>
          (case ToAnyE tv v of
             (val, Some err) \<Rightarrow> ([], Some err)
           | (val, None) \<Rightarrow> GetAll_loop tk tv vals (AList.update key val result)))"

definition GetAll ::
  "'k typex \<Rightarrow> 'v typex \<Rightarrow> ('s HashMap, 's) world
    \<Rightarrow> (('k \<times> 'v) list \<times> error option) \<times> ('s HashMap, 's) world"
where
  "GetAll tk tv w =
     (let h = self w;
          ((vals, err), r) = HGetAll (Cli h) (Key h) (remote w);
          w' = w\<lparr>remote := r\<rparr>
      in (case err of
            Some e \<Rightarrow> (([], Some e), w')
          | None \<Rightarrow> (GetAll_loop tk tv vals [], w')))"

text \<open>The loop shared in shape by \<open>Keys\<close> and \<open>Values\<close>: decode each entry, stop at the first error.\<close>

fun Keys_loop :: "'k typex \<Rightarrow> string list \<Rightarrow> 'k list \<Rightarrow> 'k list \<times> error option" where
  "Keys_loop tk [] result = (result, None)"
| "Keys_loop tk (k # keys) result =
     (case ToAnyE tk k of
        (key, Some err) \<Rightarrow> ([], Some err)
      | (key, None) \<Rightarrow> Keys_loop tk keys (result @ [key]))"

definition Keys ::
  "'k typex \<Rightarrow> ('s HashMap, 's) world \<Rightarrow> ('k list \<times> error option) \<times> ('s HashMap, 's) world"
where
  "Keys tk w =
     (let h = self w;
          ((keys, err), r) = HKeys (Cli h) (Key h) (remote w);
          w' = w\<lparr>remote := r\<rparr>
      in (case err of
            Some e \<Rightarrow> (([], Some e), w')
          | None \<Rightarrow> (Keys_loop tk keys [], w')))"

fun Values_loop :: "'v typex \<Rightarrow> string list \<Rightarrow> 'v list \<Rightarrow> 'v list \<times> error option" where
  "Values_loop tv [] result = (result, None)"
| "Values_loop tv (v # vals) result =
     (case ToAnyE tv v of
        (val, Some err) \<Rightarrow> ([], Some err)
      | (val, None) \<Rightarrow> Values_loop tv vals (result @ [val]))"

definition Values ::
  "'v typex \<Rightarrow> ('s HashMap, 's) world \<Rightarrow> ('v list \<times> error option) \<times> ('s HashMap, 's) world"
where
  "Values tv w =
     (let h = self w;
          ((vals, err), r) = HVals (Cli h) (Key h) (remote w);
          w' = w\<lparr>remote := r\<rparr>
      in (case err of
            Some e \<Rightarrow> (([], Some e), w')
          | None \<Rightarrow> (Values_loop tv vals [], w')))"

definition Incr ::
  "'k typex \<Rightarrow> 'k \<Rightarrow> int64 \<Rightarrow> Duration \<Rightarrow> ('s HashMap, 's) world
    \<Rightarrow> (int64 \<times> error option) \<times> ('s HashMap, 's) world"
where
  "Incr tk field increment expire w =
     (let h = self w;
          pipe = Pipeline;
          pipe = pipe @ [HIncrBy (Key h) (ToString tk field) increment];
          pipe = (if 0 < sint expire then pipe @ [Expire (Key h) expire] else pipe);
          ((cmds, err), r) = Exec (Cli h) pipe (remote w);
          w' = w\<lparr>remote := r\<rparr>
      in (case err of
            Some e \<Rightarrow> ((0, Some e), w')
          | None \<Rightarrow> ((IntCmd_Val cmds, None), w')))"

definition IncrFloat ::
  "'k typex \<Rightarrow> 'k \<Rightarrow> float64 \<Rightarrow> Duration \<Rightarrow> ('s HashMap, 's) world
    \<Rightarrow> (float64 \<times> error option) \<times> ('s HashMap, 's) world"
where
  "IncrFloat tk field increment expire w =
     (let h = self w;
          pipe = Pipeline;
          pipe = pipe @ [HIncrByFloat (Key h) (ToString tk field) increment];
          pipe = (if 0 < sint expire then pipe @ [Expire (Key h) expire] else pipe);
          ((cmds, err), r) = Exec (Cli h) pipe (remote w);
          w' = w\<lparr>remote := r\<rparr>
      in (case err of
            Some e \<Rightarrow> ((Finite 0, Some e), w')
          | None \<Rightarrow> ((FloatCmd_Val cmds, None), w')))"

section \<open>z\_queue.go\<close>

subsection \<open>Conversions between int64 and float64\<close>

text \<open>
  \<open>float64(score)\<close> is the double nearest to the integer, ties going to the even
  significand: an integer of more than 53 significant bits loses its low bits.
\<close>

function bit_length :: "int \<Rightarrow> nat" where
  "bit_length a = (if a \<le> 0 then 0 else Suc (bit_length (a div 2)))"
  by pat_completeness auto
termination
  by (relation "measure nat") auto

definition round53 :: "int \<Rightarrow> int" where
  "round53 i =
     (let a = \<bar>i\<bar>; n = bit_length a in
      if n \<le> 53 then i
      else
        (let sh = n - 53;
             q = a div 2 ^ sh;
             rest = a mod 2 ^ sh;
             half = 2 ^ (sh - 1);
             q' = (if half < rest \<or> (rest = half \<and> odd q) then q + 1 else q)
         in sgn i * (q' * 2 ^ sh)))"

definition float64_of_int64 :: "int64 \<Rightarrow> float64" where
  "float64_of_int64 n = Finite (of_int (round53 (sint n)))"

text \<open>
  \<open>int64(x)\<close> drops the fraction (towards zero). For a value outside the range of
  \<open>int64\<close>, an infinity or NaN, Go leaves the result to the implementation: it is the
  parameter \<open>ovf\<close>.
\<close>

definition int64_of_float64 :: "(float64 \<Rightarrow> int64) \<Rightarrow> float64 \<Rightarrow> int64" where
  "int64_of_float64 ovf x =
     (case x of
        Finite y \<Rightarrow>
          (let t = (if 0 \<le> y then \<lfloor>y\<rfloor> else \<lceil>y\<rceil>) in
           if - (2 ^ 63) \<le> t \<and> t < 2 ^ 63 then word_of_int t else ovf x)
      | _ \<Rightarrow> ovf x)"

subsection \<open>Elements\<close>

definition Members :: "'t Element list \<Rightarrow> 't list" where
  "Members e = foldl (\<lambda>members v. members @ [Member v]) [] e"

definition redisZToElement :: "(float64 \<Rightarrow> int64) \<Rightarrow> 't typex \<Rightarrow> Z \<Rightarrow> 't Element" where
  "redisZToElement ovf tx z =
     \<lparr>Member = ToAny tx (Z_Member z), Score = int64_of_float64 ovf (Z_Score z)\<rparr>"

definition redisZToElements :: "(float64 \<Rightarrow> int64) \<Rightarrow> 't typex \<Rightarrow> Z list \<Rightarrow> 't Element list" where
  "redisZToElements ovf tx zs =
     foldl (\<lambda>elements z. elements @ [redisZToElement ovf tx z]) [] zs"

subsection \<open>Writes and removals\<close>

definition Add ::
  "'t typex \<Rightarrow> 't \<Rightarrow> int64 \<Rightarrow> Duration \<Rightarrow> ('s ZQueue, 's) world
    \<Rightarrow> error option \<times> ('s ZQueue, 's) world"
where
  "Add tx member score expire w =
     (let q = self w;
          pipe = Pipeline;
          pipe = pipe @ [ZAdd (Key q) [Z (float64_of_int64 score) (ToString tx member)]];
          pipe = (if 0 < sint expire then pipe @ [Expire (Key q) expire] else pipe);
          ((cmds, err), r) = Exec (Cli q) pipe (remote w)
      in (err, w\<lparr>remote := r\<rparr>))"

definition AddMulti ::
  "'t typex \<Rightarrow> 't Element list \<Rightarrow> Duration \<Rightarrow> ('s ZQueue, 's) world
    \<Rightarrow> error option \<times> ('s ZQueue, 's) world"
where
  "AddMulti tx elements expire w =
     (let q = self w;
          members = foldl (\<lambda>members elem.
                        members @ [Z (float64_of_int64 (Score elem)) (ToString tx (Member elem))])
                      [] elements;
          pipe = Pipeline;
          pipe = pipe @ [ZAdd (Key q) members];
          pipe = (if 0 < sint expire then pipe @ [Expire (Key q) expire] else pipe);
          ((cmds, err), r) = Exec (Cli q) pipe (remote w)
      in (err, w\<lparr>remote := r\<rparr>))"

definition Remove ::
  "'t typex \<Rightarrow> 't \<Rightarrow> ('s ZQueue, 's) world \<Rightarrow> error option \<times> ('s ZQueue, 's) world"
where
  "Remove tx member w =
     (let q = self w;
          (err, r) = ZRem (Cli q) (Key q) [ToString tx member] (remote w)
      in (err, w\<lparr>remote := r\<rparr>))"

definition RemoveMulti ::
  "'t typex \<Rightarrow> 't list \<Rightarrow> ('s ZQueue, 's) world \<Rightarrow> error option \<times> ('s ZQueue, 's) world"
where
  "RemoveMulti tx members w =
     (let q = self w;
          memberStrs = foldl (\<lambda>memberStrs member. memberStrs @ [ToString tx member]) [] members;
          (err, r) = ZRem (Cli q) (Key q) memberStrs (remote w)
      in (err, w\<lparr>remote := r\<rparr>))"

subsection \<open>Range queries\<close>

text \<open>
  \<open>rangeByScoreInternal\<close>, lines 146 to 154: the two bounds as strings. \<open>ti\<close> is
  \<open>typex\<close> at \<open>int64\<close>.
\<close>

definition scoreBounds :: "int64 typex \<Rightarrow> int64 \<Rightarrow> int64 \<Rightarrow> string \<times> string" where
  "scoreBounds ti minScore maxScore =
     (let minS = ''-inf'';
          minS = (if minScore \<noteq> - 1 then ToString ti minScore else minS);
          maxS = ''+inf'';
          maxS = (if maxScore \<noteq> - 1 then ToString ti maxScore else maxS)
      in (minS, maxS))"

definition rangeByScoreInternal ::
  "(float64 \<Rightarrow> int64) \<Rightarrow> int64 typex \<Rightarrow> 't typex \<Rightarrow> int64 \<Rightarrow> int64 \<Rightarrow> int64 \<Rightarrow> int64 \<Rightarrow> bool
    \<Rightarrow> ('s ZQueue, 's) world \<Rightarrow> ('t Element list \<times> error option) \<times> ('s ZQueue, 's) world"
where
  "rangeByScoreInternal ovf ti tx minScore maxScore offset count desc w =
     (let q = self w;
          (minS, maxS) = scoreBounds ti minScore maxScore;
          opt = \<lparr>Min_str = minS, Max_str = maxS, Offset = offset, Count = count\<rparr>;
          ((zs, err), r) =
            (if desc then ZRevRangeByScoreWithScores (Cli q) (Key q) opt (remote w)
             else ZRangeByScoreWithScores (Cli q) (Key q) opt (remote w));
          w' = w\<lparr>remote := r\<rparr>
      in (case err of
            Some e \<Rightarrow> (([], Some e), w')
          | None \<Rightarrow> ((redisZToElements ovf tx zs, None), w')))"

definition RangeByScore ::
  "(float64 \<Rightarrow> int64) \<Rightarrow> int64 typex \<Rightarrow> 't typex \<Rightarrow> int64 \<Rightarrow> int64
    \<Rightarrow> ('s ZQueue, 's) world \<Rightarrow> ('t Element list \<times> error option) \<times> ('s ZQueue, 's) world"
where
  "RangeByScore ovf ti tx minScore maxScore w =
     rangeByScoreInternal ovf ti tx minScore maxScore 0 (- 1) (Desc (self w)) w"

definition RangeByScoreWithLimit ::
  "(float64 \<Rightarrow> int64) \<Rightarrow> int64 typex \<Rightarrow> 't typex \<Rightarrow> int64 \<Rightarrow> int64 \<Rightarrow> int64 \<Rightarrow> int64
    \<Rightarrow> ('s ZQueue, 's) world \<Rightarrow> ('t Element list \<times> error option) \<times> ('s ZQueue, 's) world"
where
  "RangeByScoreWithLimit ovf ti tx minScore maxScore offset count w =
     rangeByScoreInternal ovf ti tx minScore maxScore offset count (Desc (self w)) w"

definition RangeFromScore ::
  "(float64 \<Rightarrow> int64) \<Rightarrow> int64 typex \<Rightarrow> 't typex \<Rightarrow> int64
    \<Rightarrow> ('s ZQueue, 's) world \<Rightarrow> ('t Element list \<times> error option) \<times> ('s ZQueue, 's) world"
where
  "RangeFromScore ovf ti tx minScore w =
     rangeByScoreInternal ovf ti tx minScore (- 1) 0 (- 1) (Desc (self w)) w"

definition RangeToScore ::
  "(float64 \<Rightarrow> int64) \<Rightarrow> int64 typex \<Rightarrow> 't typex \<Rightarrow> int64
    \<Rightarrow> ('s ZQueue, 's) world \<Rightarrow> ('t Element list \<times> error option) \<times> ('s ZQueue, 's) world"
where
  "RangeToScore ovf ti tx maxScore w =
     rangeByScoreInternal ovf ti tx (- 1) maxScore 0 (- 1) (Desc (self w)) w"

definition RangeByScoreRev ::
  "(float64 \<Rightarrow> int64) \<Rightarrow> int64 typex \<Rightarrow> 't typex \<Rightarrow> int64 \<Rightarrow> int64
    \<Rightarrow> ('s ZQueue, 's) world \<Rightarrow> ('t Element list \<times> error option) \<times> ('s ZQueue, 's) world"
where
  "RangeByScoreRev ovf ti tx minScore maxScore w =
     rangeByScoreInternal ovf ti tx minScore maxScore 0 (- 1) (\<not> Desc (self w)) w"

definition RangeByScoreWithLimitRev ::
  "(float64 \<Rightarrow> int64) \<Rightarrow> int64 typex \<Rightarrow> 't typex \<Rightarrow> int64 \<Rightarrow> int64 \<Rightarrow> int64 \<Rightarrow> int64
    \<Rightarrow> ('s ZQueue, 's) world \<Rightarrow> ('t Element list \<times> error option) \<times> ('s ZQueue, 's) world"
where
  "RangeByScoreWithLimitRev ovf ti tx minScore maxScore offset count w =
     rangeByScoreInternal ovf ti tx minScore maxScore offset count (\<not> Desc (self w)) w"

definition RangeFromScoreRev ::
  "(float64 \<Rightarrow> int64) \<Rightarrow> int64 typex \<Rightarrow> 't typex \<Rightarrow> int64
    \<Rightarrow> ('s ZQueue, 's) world \<Rightarrow> ('t Element list \<times> error option) \<times> ('s ZQueue, 's) world"
where
  "RangeFromScoreRev ovf ti tx minScore w =
     rangeByScoreInternal ovf ti tx minScore (- 1) 0 (- 1) (\<not> Desc (self w)) w"

definition RangeToScoreRev ::
  "(float64 \<Rightarrow> int64) \<Rightarrow> int64 typex \<Rightarrow> 't typex \<Rightarrow> int64
    \<Rightarrow> ('s ZQueue, 's) world \<Rightarrow> ('t Element list \<times> error option) \<times> ('s ZQueue, 's) world"
where
  "RangeToScoreRev ovf ti tx maxScore w =
     rangeByScoreInternal ovf ti tx (- 1) maxScore 0 (- 1) (\<not> Desc (self w)) w"

subsection \<open>Pops and score lookup\<close>

text \<open>The \<open>*Element[T]\<close> returned by \<open>PopMin\<close> and \<open>PopMax\<close> is an option, \<open>nil\<close> being \<open>None\<close>.\<close>

definition PopMin ::
  "(float64 \<Rightarrow> int64) \<Rightarrow> 't typex \<Rightarrow> ('s ZQueue, 's) world
    \<Rightarrow> ('t Element option \<times> error option) \<times> ('s ZQueue, 's) world"
where
  "PopMin ovf tx w =
     (let q = self w;
          ((zs, err), r) = ZPopMin (Cli q) (Key q) 1 (remote w);
          w' = w\<lparr>remote := r\<rparr>
      in (case err of
            Some e \<Rightarrow> ((None, Some e), w')
          | None \<Rightarrow>
              (case zs of
                 [] \<Rightarrow> ((None, None), w')
               | z # rest \<Rightarrow> ((Some (redisZToElement ovf tx z), None), w'))))"

definition PopMax ::
  "(float64 \<Rightarrow> int64) \<Rightarrow> 't typex \<Rightarrow> ('s ZQueue, 's) world
    \<Rightarrow> ('t Element option \<times> error option) \<times> ('s ZQueue, 's) world"
where
  "PopMax ovf tx w =
     (let q = self w;
          ((zs, err), r) = ZPopMax (Cli q) (Key q) 1 (remote w);
          w' = w\<lparr>remote := r\<rparr>
      in (case err of
            Some e \<Rightarrow> ((None, Some e), w')
          | None \<Rightarrow>
              (case zs of
                 [] \<Rightarrow> ((None, None), w')
               | z # rest \<Rightarrow> ((Some (redisZToElement ovf tx z), None), w'))))"

definition PopMinMulti ::
  "(float64 \<Rightarrow> int64) \<Rightarrow> 't typex \<Rightarrow> int64 \<Rightarrow> ('s ZQueue, 's) world
    \<Rightarrow> ('t Element list \<times> error option) \<times> ('s ZQueue, 's) world"
where
  "PopMinMulti ovf tx count w =
     (let q = self w;
          ((zs, err), r) = ZPopMin (Cli q) (Key q) count (remote w);
          w' = w\<lparr>remote := r\<rparr>
      in (case err of
            Some e \<Rightarrow> (([], Some e), w')
          | None \<Rightarrow> ((redisZToElements ovf tx zs, None), w')))"

definition PopMaxMulti ::
  "(float64 \<Rightarrow> int64) \<Rightarrow> 't typex \<Rightarrow> int64 \<Rightarrow> ('s ZQueue, 's) world
    \<Rightarrow> ('t Element list \<times> error option) \<times> ('s ZQueue, 's) world"
where
  "PopMaxMulti ovf tx count w =
     (let q = self w;
          ((zs, err), r) = ZPopMax (Cli q) (Key q) count (remote w);
          w' = w\<lparr>remote := r\<rparr>
      in (case err of
            Some e \<Rightarrow> (([], Some e), w')
          | None \<Rightarrow> ((redisZToElements ovf tx zs, None), w')))"

text \<open>
  The method \<open>Score\<close> (the field of \<open>Element\<close> has the name already). The methods
  \<open>RemoveRangeByScore\<close>, \<open>Count\<close> and \<open>CountByScore\<close> hand their arguments to the client
  and its answer back; nothing below is about them.
\<close>

definition Score_of ::
  "(float64 \<Rightarrow> int64) \<Rightarrow> 't typex \<Rightarrow> 't \<Rightarrow> ('s ZQueue, 's) world
    \<Rightarrow> (int64 \<times> error option) \<times> ('s ZQueue, 's) world"
where
  "Score_of ovf tx member w =
     (let q = self w;
          ((score, err), r) = ZScore (Cli q) (Key q) (ToString tx member) (remote w);
          w' = w\<lparr>remote := r\<rparr>
      in (case err of
            Some e \<Rightarrow> ((0, Some e), w')
          | None \<Rightarrow> ((int64_of_float64 ovf score, None), w')))"

section \<open>A codec for typex\<close>

text \<open>
  Modelled from the spec: the source of \<open>typex.ToString\<close> and \<open>typex.ToAnyE\<close> is missing.
  The spec asks for a deterministic string per value of a supported type and a decoder
  that fails with a conversion error on a string it cannot parse, such as a non-numeric
  string for an integer type. Integers are written in decimal: \<open>digit_char\<close> is the
  character of a digit.
\<close>

definition digit_char :: "int \<Rightarrow> char" where
  "digit_char d = ''0123456789'' ! nat d"

text \<open>Modelled from the spec: the missing decoder's test for a decimal digit.\<close>

definition is_digit :: "char \<Rightarrow> bool" where
  "is_digit c = (48 \<le> (of_char c :: int) \<and> (of_char c :: int) \<le> 57)"

text \<open>Modelled from the spec: the value of a decimal digit, for the missing decoder.\<close>

definition digit_val :: "char \<Rightarrow> int" where
  "digit_val c = of_char c - 48"

text \<open>
  Modelled from the spec: the missing encoder on a number that is not negative, most
  significant digit first.
\<close>

function format_nat :: "int \<Rightarrow> string" where
  "format_nat n =
     (if n < 10 then [digit_char n] else format_nat (n div 10) @ [digit_char (n mod 10)])"
  by pat_completeness auto
termination
  by (relation "measure nat") auto

text \<open>
  Modelled from the spec: the missing decoder on a number without sign; a string that is
  empty or holds anything but digits is not a number.
\<close>

definition parse_nat :: "string \<Rightarrow> int option" where
  "parse_nat s =
     (if s \<noteq> [] \<and> list_all is_digit s
      then Some (foldl (\<lambda>acc c. 10 * acc + digit_val c) 0 s)
      else None)"

text \<open>Modelled from the spec: the missing \<open>ToString\<close> at \<open>int64\<close>, a sign and the decimal digits.\<close>

definition encode_int64 :: "int64 \<Rightarrow> string" where
  "encode_int64 n =
     (if sint n < 0 then CHR ''-'' # format_nat (- sint n) else format_nat (sint n))"

text \<open>
  Modelled from the spec: the missing \<open>ToAnyE\<close> at \<open>int64\<close>. A string that is not a decimal
  number, or whose number does not fit 64 bits, is a conversion error beside the zero value.
\<close>

definition decode_int64 :: "string \<Rightarrow> int64 \<times> error option" where
  "decode_int64 s =
     (if s \<noteq> [] \<and> hd s = CHR ''-''
      then (case parse_nat (tl s) of
              None \<Rightarrow> (0, Some ConversionError)
            | Some n \<Rightarrow> if n \<le> 2 ^ 63 then (word_of_int (- n), None)
                        else (0, Some ConversionError))
      else (case parse_nat s of
              None \<Rightarrow> (0, Some ConversionError)
            | Some n \<Rightarrow> if n < 2 ^ 63 then (word_of_int n, None)
                        else (0, Some ConversionError)))"

text \<open>Modelled from the spec: the missing \<open>ToString\<close> at \<open>bool\<close>.\<close>

definition encode_bool :: "bool \<Rightarrow> string" where
  "encode_bool b = (if b then ''true'' else ''false'')"

text \<open>Modelled from the spec: the missing \<open>ToAnyE\<close> at \<open>bool\<close>.\<close>

definition decode_bool :: "string \<Rightarrow> bool \<times> error option" where
  "decode_bool s =
     (if s = ''true'' then (True, None)
      else if s = ''false'' then (False, None)
      else (False, Some ConversionError))"

text \<open>
  Modelled from the spec: the missing package \<open>typex\<close> at \<open>int64\<close>, \<open>bool\<close> and \<open>string\<close>;
  a string is its own wire form. \<open>ToAny\<close> is taken to be the value \<open>ToAnyE\<close> returns, its
  error dropped. Floats and composite types are not modelled: the spec names no format
  for them.
\<close>

definition typex_int64 :: "int64 typex" where
  "typex_int64 =
     \<lparr>ToString = encode_int64, ToAnyE = decode_int64, ToAny = (\<lambda>s. fst (decode_int64 s))\<rparr>"

text \<open>Modelled from the spec: the missing package \<open>typex\<close> at \<open>bool\<close>.\<close>

definition typex_bool :: "bool typex" where
  "typex_bool =
     \<lparr>ToString = encode_bool, ToAnyE = decode_bool, ToAny = (\<lambda>s. fst (decode_bool s))\<rparr>"

text \<open>Modelled from the spec: the missing package \<open>typex\<close> at \<open>string\<close>.\<close>

definition typex_string :: "string typex" where
  "typex_string = \<lparr>ToString = (\<lambda>s. s), ToAnyE = (\<lambda>s. (s, None)), ToAny = (\<lambda>s. s)\<rparr>"

section \<open>Reading the adapters' requests\<close>

text \<open>
  The batch of a write, in the spec's words: one command, and the refresh of the
  container's expiry after it exactly when the time to live is positive.
\<close>

definition write_batch :: "cmd \<Rightarrow> string \<Rightarrow> Duration \<Rightarrow> cmd list" where
  "write_batch c key ttl = (if 0 < sint ttl then [c, Expire key ttl] else [c])"

text \<open>
  One round trip of a batch through the adapter's client: the remote state moves as the
  client says, and the error is that of the first command of the batch that failed.
\<close>

definition one_round_trip ::
  "cmd list \<Rightarrow> (('s, 'z) HashMap_scheme, 's) world
    \<Rightarrow> error option \<times> (('s, 'z) HashMap_scheme, 's) world"
where
  "one_round_trip batch w =
     (let (outs, r) = Process (Cli (self w)) batch (remote w)
      in (cmdsFirstErr outs, w\<lparr>remote := r\<rparr>))"

text \<open>
  The client's answer to a range request \<open>opt\<close> on the adapter's key: from the reversed
  range command when \<open>desc\<close> holds, from the forward one otherwise.
\<close>

definition range_reply ::
  "bool \<Rightarrow> ZRangeBy \<Rightarrow> ('s ZQueue, 's) world \<Rightarrow> (Z list \<times> error option) \<times> 's"
where
  "range_reply desc opt w =
     (if desc then ZRevRangeByScoreWithScores (Cli (self w)) (Key (self w)) opt (remote w)
      else ZRangeByScoreWithScores (Cli (self w)) (Key (self w)) opt (remote w))"

text \<open>
  A range query as the store sees it: the request \<open>opt\<close> in the direction \<open>desc\<close>, every
  entry of the answer turned into an element, or the client's error and no element.
\<close>

definition storeQuery ::
  "(float64 \<Rightarrow> int64) \<Rightarrow> 't typex \<Rightarrow> bool \<Rightarrow> ZRangeBy \<Rightarrow> ('s ZQueue, 's) world
    \<Rightarrow> ('t Element list \<times> error option) \<times> ('s ZQueue, 's) world"
where
  "storeQuery ovf tx desc opt w =
     (let ((zs, err), r) = range_reply desc opt w
      in ((if err = None then map (redisZToElement ovf tx) zs else [], err), w\<lparr>remote := r\<rparr>))"

section \<open>An in-memory client\<close>

text \<open>
  To run the adapters on concrete inputs, a client over a small store held in memory. It
  answers as a Redis server is documented to: a field or member that is absent is
  \<open>redis.Nil\<close>, a command sent without the arguments it needs is refused, a sorted set is
  kept in the order of its scores, members of equal score in the order of their bytes. The
  commands of a pipeline are applied one after another, each on its own: the pipeline is no
  transaction, and a command that fails leaves the others to run. The store also keeps a
  journal of the pipelined commands it received.
\<close>

record store =
  hashes :: "(string \<times> (string \<times> string) list) list"
  zsets :: "(string \<times> Z list) list"
  expiry :: "(string \<times> Duration) list"
  journal :: "cmd list"

definition empty_store :: store where
  "empty_store = \<lparr>hashes = [], zsets = [], expiry = [], journal = []\<rparr>"

definition hash_at :: "store \<Rightarrow> string \<Rightarrow> (string \<times> string) list" where
  "hash_at st key = (case map_of (hashes st) key of None \<Rightarrow> [] | Some h \<Rightarrow> h)"

definition zset_at :: "store \<Rightarrow> string \<Rightarrow> Z list" where
  "zset_at st key = (case map_of (zsets st) key of None \<Rightarrow> [] | Some zs \<Rightarrow> zs)"

fun f64_le :: "float64 \<Rightarrow> float64 \<Rightarrow> bool" where
  "f64_le NaN y = False"
| "f64_le x NaN = False"
| "f64_le NegInf y = True"
| "f64_le x PosInf = True"
| "f64_le (Finite a) (Finite b) = (a \<le> b)"
| "f64_le x y = False"

fun str_le :: "string \<Rightarrow> string \<Rightarrow> bool" where
  "str_le [] t = True"
| "str_le (c # cs) [] = False"
| "str_le (c # cs) (d # ds) =
     (if c = d then str_le cs ds else (of_char c :: nat) < of_char d)"

definition z_le :: "Z \<Rightarrow> Z \<Rightarrow> bool" where
  "z_le a b =
     (if Z_Score a = Z_Score b then str_le (Z_Member a) (Z_Member b)
      else f64_le (Z_Score a) (Z_Score b))"

fun zinsert :: "Z \<Rightarrow> Z list \<Rightarrow> Z list" where
  "zinsert z [] = [z]"
| "zinsert z (y # ys) = (if z_le z y then z # y # ys else y # zinsert z ys)"

definition zadd1 :: "Z \<Rightarrow> Z list \<Rightarrow> Z list" where
  "zadd1 z zs = zinsert z (filter (\<lambda>y. Z_Member y \<noteq> Z_Member z) zs)"

text \<open>A sorted set that has lost its last member is gone from the store.\<close>

definition put_zset :: "string \<Rightarrow> Z list \<Rightarrow> store \<Rightarrow> store" where
  "put_zset key zs st =
     st\<lparr>zsets := (if zs = [] then AList.delete key (zsets st) else AList.update key zs (zsets st))\<rparr>"

definition arity_error :: error where
  "arity_error = RemoteError ''ERR wrong number of arguments''"

fun apply_cmd :: "cmd \<Rightarrow> store \<Rightarrow> (reply \<times> error option) \<times> store" where
  "apply_cmd (HSet key fvs) st =
     (if fvs = [] then ((NoReply, Some arity_error), st)
      else
        (let h = hash_at st key;
             h' = fold (\<lambda>(f, v). AList.update f v) fvs h
         in ((IntReply (of_nat (length h' - length h)), None),
             st\<lparr>hashes := AList.update key h' (hashes st)\<rparr>)))"
| "apply_cmd (Expire key d) st =
     (if map_of (hashes st) key = None \<and> map_of (zsets st) key = None
      then ((BoolReply False, None), st)
      else ((BoolReply True, None), st\<lparr>expiry := AList.update key d (expiry st)\<rparr>))"
| "apply_cmd (HIncrBy key f n) st =
     (let h = hash_at st key;
          (old, err) = (case map_of h f of None \<Rightarrow> (0, None) | Some v \<Rightarrow> decode_int64 v)
      in if err \<noteq> None
         then ((NoReply, Some (RemoteError ''ERR hash value is not an integer'')), st)
         else if sint old + sint n < - (2 ^ 63) \<or> 2 ^ 63 \<le> sint old + sint n
         then ((NoReply, Some (RemoteError ''ERR increment or decrement would overflow'')), st)
         else ((IntReply (old + n), None),
               st\<lparr>hashes :=
                    AList.update key (AList.update f (encode_int64 (old + n)) h) (hashes st)\<rparr>))"
| "apply_cmd (HIncrByFloat key f x) st =
     ((NoReply, Some (RemoteError ''ERR this store holds no floats'')), st)"
| "apply_cmd (ZAdd key zs) st =
     (if zs = [] then ((NoReply, Some arity_error), st)
      else if list_ex (\<lambda>z. Z_Score z = NaN) zs
      then ((NoReply, Some (RemoteError ''ERR value is not a valid float'')), st)
      else
        (let old = zset_at st key;
             new = fold zadd1 zs old
         in ((IntReply (of_nat (length new - length old)), None), put_zset key new st)))"

fun run_cmds :: "cmd list \<Rightarrow> store \<Rightarrow> (reply \<times> error option) list \<times> store" where
  "run_cmds [] st = ([], st)"
| "run_cmds (c # cs) st =
     (let (out, st') = apply_cmd c st; (outs, st'') = run_cmds cs st' in (out # outs, st''))"

definition parse_bound :: "string \<Rightarrow> float64 option" where
  "parse_bound s =
     (if s = ''-inf'' then Some NegInf
      else if s = ''+inf'' then Some PosInf
      else (case decode_int64 s of
              (n, None) \<Rightarrow> Some (Finite (of_int (sint n)))
            | (n, Some e) \<Rightarrow> None))"

text \<open>
  \<open>LIMIT offset count\<close>: go-redis sends it unless both are zero, and the server takes a
  negative count to mean every entry from the offset on.
\<close>

definition limit :: "int64 \<Rightarrow> int64 \<Rightarrow> Z list \<Rightarrow> Z list" where
  "limit offset count zs =
     (if offset = 0 \<and> count = 0 then zs
      else if sint offset < 0 then []
      else (let ys = drop (nat (sint offset)) zs
            in if sint count < 0 then ys else take (nat (sint count)) ys))"

definition range_by_score ::
  "bool \<Rightarrow> string \<Rightarrow> ZRangeBy \<Rightarrow> store \<Rightarrow> (Z list \<times> error option) \<times> store"
where
  "range_by_score backwards key opt st =
     (case (parse_bound (Min_str opt), parse_bound (Max_str opt)) of
        (Some lo, Some hi) \<Rightarrow>
          (let hit = filter (\<lambda>z. f64_le lo (Z_Score z) \<and> f64_le (Z_Score z) hi) (zset_at st key)
           in ((limit (Offset opt) (Count opt) (if backwards then rev hit else hit), None), st))
      | _ \<Rightarrow> (([], Some (RemoteError ''ERR min or max is not a float'')), st))"

definition pop :: "bool \<Rightarrow> string \<Rightarrow> int64 \<Rightarrow> store \<Rightarrow> (Z list \<times> error option) \<times> store" where
  "pop highest key n st =
     (if sint n < 0
      then (([], Some (RemoteError ''ERR value is out of range, must be positive'')), st)
      else
        (let zs = zset_at st key;
             zs = (if highest then rev zs else zs);
             k = nat (sint n);
             left = drop k zs
         in ((take k zs, None), put_zset key (if highest then rev left else left) st)))"

definition mem :: "store UniversalClient" where
  "mem =
     \<lparr>Process = (\<lambda>cmds st. run_cmds cmds (st\<lparr>journal := journal st @ cmds\<rparr>)),
      HGet = (\<lambda>key f st.
        ((case map_of (hash_at st key) f of None \<Rightarrow> ([], Some RedisNil) | Some v \<Rightarrow> (v, None)), st)),
      HMGet = (\<lambda>key fs st. ((map (map_of (hash_at st key)) fs, None), st)),
      HGetAll = (\<lambda>key st. ((hash_at st key, None), st)),
      HKeys = (\<lambda>key st. ((map fst (hash_at st key), None), st)),
      HVals = (\<lambda>key st. ((map snd (hash_at st key), None), st)),
      ZRem = (\<lambda>key ms st.
        if ms = [] then (Some arity_error, st)
        else (None, put_zset key (filter (\<lambda>z. Z_Member z \<notin> set ms) (zset_at st key)) st)),
      ZRangeByScoreWithScores = range_by_score False,
      ZRevRangeByScoreWithScores = range_by_score True,
      ZPopMin = pop False,
      ZPopMax = pop True,
      ZScore = (\<lambda>key m st.
        ((case find (\<lambda>z. Z_Member z = m) (zset_at st key) of
            None \<Rightarrow> (Finite 0, Some RedisNil)
          | Some z \<Rightarrow> (Z_Score z, None)), st))\<rparr>"

text \<open>
  A queue and a map over the in-memory client, and a platform whose out-of-range
  conversion yields the least \<open>int64\<close>.
\<close>

definition ovf0 :: "float64 \<Rightarrow> int64" where
  "ovf0 x = - (2 ^ 63)"

definition zq :: "bool \<Rightarrow> store \<Rightarrow> (store ZQueue, store) world" where
  "zq d st = \<lparr>self = \<lparr>Key = ''q'', Cli = mem, Desc = d\<rparr>, remote = st\<rparr>"

definition hm :: "store \<Rightarrow> (store HashMap, store) world" where
  "hm st = \<lparr>self = \<lparr>Key = ''h'', Cli = mem\<rparr>, remote = st\<rparr>"

text \<open>The queue of the spec's example: \<open>a\<close>, \<open>b\<close> and \<open>c\<close> with the scores 1, 2 and 3.\<close>

definition abc_store :: store where
  "abc_store =
     \<lparr>hashes = [],
      zsets = [(''q'', [Z (Finite 1) ''a'', Z (Finite 2) ''b'', Z (Finite 3) ''c''])],
      expiry = [], journal = []\<rparr>"

text \<open>
  A map whose entries do not all decode as integers: the value \<open>abc\<close> and the field \<open>x\<close>.
\<close>

definition odd_store :: store where
  "odd_store =
     \<lparr>hashes = [(''h'', [(''7'', ''abc''), (''x'', ''1'')])], zsets = [], expiry = [], journal = []\<rparr>"

section \<open>Properties\<close>

text \<open>
  The equations of the two functions defined by general recursion are unfolded by hand.
\<close>

declare format_nat.simps [simp del]
declare bit_length.simps [simp del]

subsection \<open>Loops as maps\<close>

lemma foldl_snoc_map: "foldl (\<lambda>acc x. acc @ [f x]) acc xs = acc @ map f xs"
  by (induction xs arbitrary: acc) simp_all

lemma redisZToElements_map: "redisZToElements ovf tx zs = map (redisZToElement ovf tx) zs"
  by (simp add: redisZToElements_def foldl_snoc_map)

subsection \<open>Writes\<close>

lemma Set_batch:
  "Set tk tv field value expire w =
     one_round_trip
       (write_batch (HSet (Key (self w)) [(ToString tk field, ToString tv value)]) (Key (self w))
          expire) w"
  by (simp add: Set_def Let_def Pipeline_def write_batch_def Exec_def one_round_trip_def
      split: prod.splits)

lemma SetMulti_batch:
  "flds \<noteq> [] \<Longrightarrow>
   SetMulti tk tv flds expire w =
     one_round_trip
       (write_batch
          (HSet (Key (self w))
             (foldl (\<lambda>values (k, v). AList.update (ToString tk k) (ToString tv v) values) [] flds))
          (Key (self w)) expire) w"
  by (simp add: SetMulti_def Let_def Pipeline_def write_batch_def Exec_def one_round_trip_def
      split: prod.splits)

lemma Incr_batch:
  "snd (fst (Incr tk field increment expire w)) =
     fst (one_round_trip
            (write_batch (HIncrBy (Key (self w)) (ToString tk field) increment) (Key (self w))
               expire) w)
   \<and> snd (Incr tk field increment expire w) =
     snd (one_round_trip
            (write_batch (HIncrBy (Key (self w)) (ToString tk field) increment) (Key (self w))
               expire) w)"
  by (simp add: Incr_def Let_def Pipeline_def write_batch_def Exec_def one_round_trip_def
      split: prod.splits option.splits)

lemma IncrFloat_batch:
  "snd (fst (IncrFloat tk field x expire w)) =
     fst (one_round_trip
            (write_batch (HIncrByFloat (Key (self w)) (ToString tk field) x) (Key (self w))
               expire) w)
   \<and> snd (IncrFloat tk field x expire w) =
     snd (one_round_trip
            (write_batch (HIncrByFloat (Key (self w)) (ToString tk field) x) (Key (self w))
               expire) w)"
  by (simp add: IncrFloat_def Let_def Pipeline_def write_batch_def Exec_def one_round_trip_def
      split: prod.splits option.splits)

lemma Add_batch:
  "Add tx member score expire q =
     one_round_trip
       (write_batch (ZAdd (Key (self q)) [Z (float64_of_int64 score) (ToString tx member)])
          (Key (self q)) expire) q"
  by (simp add: Add_def Let_def Pipeline_def write_batch_def Exec_def one_round_trip_def
      split: prod.splits)

lemma AddMulti_batch:
  "AddMulti tx elements expire q =
     one_round_trip
       (write_batch
          (ZAdd (Key (self q))
             (map (\<lambda>elem. Z (float64_of_int64 (Score elem)) (ToString tx (Member elem))) elements))
          (Key (self q)) expire) q"
  by (simp add: AddMulti_def Let_def Pipeline_def write_batch_def Exec_def one_round_trip_def
      foldl_snoc_map
      split: prod.splits)

text \<open>
  C2, amended. \<open>Set\<close>, \<open>Incr\<close>, \<open>IncrFloat\<close>, \<open>Add\<close>, \<open>AddMulti\<close>, and \<open>SetMulti\<close> on a map that is
  not empty, hand the client one batch in one round trip: the write, followed by the refresh
  of the expiry of the adapter's key exactly when the time to live is positive. The error
  they return is the error of the first command of that batch that failed. The batch is a
  plain pipeline, not a transaction, and is not applied as a whole: on the in-memory client
  \<open>Incr\<close> of a field that holds no integer returns the error of the increment, leaves the
  map as it was, and has refreshed the expiry all the same.
\<close>

theorem writes_are_one_batch:
  assumes "flds \<noteq> []"
  shows
  "Set tk tv field value expire w =
     one_round_trip
       (write_batch (HSet (Key (self w)) [(ToString tk field, ToString tv value)]) (Key (self w))
          expire) w
   \<and> SetMulti tk tv flds expire w =
     one_round_trip
       (write_batch
          (HSet (Key (self w))
             (foldl (\<lambda>values (k, v). AList.update (ToString tk k) (ToString tv v) values) [] flds))
          (Key (self w)) expire) w
   \<and> snd (fst (Incr tk field increment expire w)) =
     fst (one_round_trip
            (write_batch (HIncrBy (Key (self w)) (ToString tk field) increment) (Key (self w))
               expire) w)
   \<and> snd (Incr tk field increment expire w) =
     snd (one_round_trip
            (write_batch (HIncrBy (Key (self w)) (ToString tk field) increment) (Key (self w))
               expire) w)
   \<and> snd (fst (IncrFloat tk field x expire w)) =
     fst (one_round_trip
            (write_batch (HIncrByFloat (Key (self w)) (ToString tk field) x) (Key (self w))
               expire) w)
   \<and> snd (IncrFloat tk field x expire w) =
     snd (one_round_trip
            (write_batch (HIncrByFloat (Key (self w)) (ToString tk field) x) (Key (self w))
               expire) w)
   \<and> Add tx member score expire q =
     one_round_trip
       (write_batch (ZAdd (Key (self q)) [Z (float64_of_int64 score) (ToString tx member)])
          (Key (self q)) expire) q
   \<and> AddMulti tx elements expire q =
     one_round_trip
       (write_batch
          (ZAdd (Key (self q))
             (map (\<lambda>elem. Z (float64_of_int64 (Score elem)) (ToString tx (Member elem))) elements))
          (Key (self q)) expire) q
   \<and> fst (Incr typex_string ''7'' 1 5 (hm odd_store))
       = (0, Some (RemoteError ''ERR hash value is not an integer''))
   \<and> hashes (remote (snd (Incr typex_string ''7'' 1 5 (hm odd_store)))) = hashes odd_store
   \<and> expiry odd_store = []
   \<and> expiry (remote (snd (Incr typex_string ''7'' 1 5 (hm odd_store)))) = [(''h'', 5)]"
proof -
  have a: "fst (Incr typex_string ''7'' 1 5 (hm odd_store))
       = (0, Some (RemoteError ''ERR hash value is not an integer''))"
    by code_simp
  have b: "hashes (remote (snd (Incr typex_string ''7'' 1 5 (hm odd_store)))) = hashes odd_store"
    by code_simp
  have c: "expiry odd_store = []" by code_simp
  have d: "expiry (remote (snd (Incr typex_string ''7'' 1 5 (hm odd_store)))) = [(''h'', 5)]"
    by code_simp
  from a b c d
    Set_batch [of tk tv field "value" expire w] SetMulti_batch [OF assms, of tk tv expire w]
    Incr_batch [of tk field increment expire w] IncrFloat_batch [of tk field x expire w]
    Add_batch [of tx member score expire q] AddMulti_batch [of tx elements expire q]
  show ?thesis by blast
qed

theorem writes_are_one_batch_witness:
  "[(''f'', 7 :: int64)] \<noteq> []
   \<and> SetMulti typex_string typex_int64 [(''f'', 7)] 5 (hm empty_store) =
       one_round_trip
         (write_batch
            (HSet (Key (self (hm empty_store)))
               (foldl (\<lambda>values (k, v).
                    AList.update (ToString typex_string k) (ToString typex_int64 v) values)
                  [] [(''f'', 7)]))
            (Key (self (hm empty_store))) 5) (hm empty_store)
   \<and> journal (remote (snd (SetMulti typex_string typex_int64 [(''f'', 7)] 5 (hm empty_store))))
       = [HSet ''h'' [(''f'', ''7'')], Expire ''h'' 5]
   \<and> journal (remote (snd (SetMulti typex_string typex_int64 [(''f'', 7)] 0 (hm empty_store))))
       = [HSet ''h'' [(''f'', ''7'')]]"
proof -
  have ne: "[(''f'', 7 :: int64)] \<noteq> []" by simp
  note t = writes_are_one_batch [OF ne, of typex_string typex_int64 "''f''" 7 _ "hm empty_store"
      0 "Finite 0" typex_string "''a''" 0 "zq False empty_store" "[]"]
  have a: "journal (remote (snd (one_round_trip
         (write_batch
            (HSet (Key (self (hm empty_store)))
               (foldl (\<lambda>values (k, v).
                    AList.update (ToString typex_string k) (ToString typex_int64 v) values)
                  [] [(''f'', 7)]))
            (Key (self (hm empty_store))) 5) (hm empty_store))))
       = [HSet ''h'' [(''f'', ''7'')], Expire ''h'' 5]"
    by code_simp
  have b: "journal (remote (snd (one_round_trip
         (write_batch
            (HSet (Key (self (hm empty_store)))
               (foldl (\<lambda>values (k, v).
                    AList.update (ToString typex_string k) (ToString typex_int64 v) values)
                  [] [(''f'', 7)]))
            (Key (self (hm empty_store))) 0) (hm empty_store))))
       = [HSet ''h'' [(''f'', ''7'')]]"
    by code_simp
  from t [of 5] t [of 0] a b ne show ?thesis by simp
qed

text \<open>
  The batch of the claim is not atomic. On a map whose field \<open>7\<close> holds \<open>abc\<close>, \<open>Incr\<close> with
  a time to live of 5 sends the increment and the refresh; the increment fails and the call
  returns its error, the map is as it was, and the expiry of the key, unset before, is 5.
  And \<open>SetMulti\<close> on the empty map, with a positive time to live, sends nothing at all.
\<close>

theorem writes_are_one_batch_counterexample:
  "0 < sint (5 :: Duration)
   \<and> fst (Incr typex_string ''7'' 1 5 (hm odd_store))
       = (0, Some (RemoteError ''ERR hash value is not an integer''))
   \<and> journal (remote (snd (Incr typex_string ''7'' 1 5 (hm odd_store))))
       = [HIncrBy ''h'' ''7'' 1, Expire ''h'' 5]
   \<and> hashes (remote (snd (Incr typex_string ''7'' 1 5 (hm odd_store)))) = hashes odd_store
   \<and> expiry odd_store = []
   \<and> expiry (remote (snd (Incr typex_string ''7'' 1 5 (hm odd_store)))) = [(''h'', 5)]
   \<and> SetMulti typex_string typex_int64 [] 5 (hm empty_store) = (None, hm empty_store)
   \<and> journal (remote (snd (SetMulti typex_string typex_int64 [] 5 (hm empty_store)))) = []"
proof -
  have a: "0 < sint (5 :: Duration)" by simp
  have b: "fst (Incr typex_string ''7'' 1 5 (hm odd_store))
       = (0, Some (RemoteError ''ERR hash value is not an integer''))"
    by code_simp
  have c: "journal (remote (snd (Incr typex_string ''7'' 1 5 (hm odd_store))))
       = [HIncrBy ''h'' ''7'' 1, Expire ''h'' 5]"
    by code_simp
  have d: "hashes (remote (snd (Incr typex_string ''7'' 1 5 (hm odd_store)))) = hashes odd_store"
    by code_simp
  have e: "expiry odd_store = []" by code_simp
  have f: "expiry (remote (snd (Incr typex_string ''7'' 1 5 (hm odd_store)))) = [(''h'', 5)]"
    by code_simp
  have g: "SetMulti typex_string typex_int64 [] 5 (hm empty_store) = (None, hm empty_store)"
    by (simp add: SetMulti_def)
  have h: "journal (remote (snd (SetMulti typex_string typex_int64 [] 5 (hm empty_store)))) = []"
    by code_simp
  from a b c d e f g h show ?thesis by blast
qed

text \<open>
  C5. \<open>SetMulti\<close> on the empty map returns nil and leaves the state as it is. \<open>AddMulti\<close> on
  the empty slice and \<open>RemoveMulti\<close> on the empty slice have no such guard: they send
  \<open>ZADD\<close> and \<open>ZREM\<close> with no member and return what the client answers, which on a store
  that checks the arguments of a command is an error.
\<close>

theorem empty_multi_calls:
  "SetMulti tk tv [] expire w = (None, w)
   \<and> AddMulti tx [] expire q =
       one_round_trip (write_batch (ZAdd (Key (self q)) []) (Key (self q)) expire) q
   \<and> RemoveMulti tx [] q =
       (fst (ZRem (Cli (self q)) (Key (self q)) [] (remote q)),
        q\<lparr>remote := snd (ZRem (Cli (self q)) (Key (self q)) [] (remote q))\<rparr>)
   \<and> fst (AddMulti typex_string [] 0 (zq False empty_store)) = Some arity_error
   \<and> journal (remote (snd (AddMulti typex_string [] 0 (zq False empty_store)))) = [ZAdd ''q'' []]
   \<and> fst (RemoveMulti typex_string [] (zq False empty_store)) = Some arity_error"
proof -
  have a: "fst (AddMulti typex_string [] 0 (zq False empty_store)) = Some arity_error"
    by code_simp
  have b: "journal (remote (snd (AddMulti typex_string [] 0 (zq False empty_store))))
      = [ZAdd ''q'' []]"
    by code_simp
  have c: "fst (RemoveMulti typex_string [] (zq False empty_store)) = Some arity_error"
    by code_simp
  have d: "RemoveMulti tx [] q =
       (fst (ZRem (Cli (self q)) (Key (self q)) [] (remote q)),
        q\<lparr>remote := snd (ZRem (Cli (self q)) (Key (self q)) [] (remote q))\<rparr>)"
    by (simp add: RemoveMulti_def Let_def split: prod.splits)
  have e: "SetMulti tk tv [] expire w = (None, w)" by (simp add: SetMulti_def)
  from a b c d e AddMulti_batch [of tx "[]" expire q] show ?thesis by simp
qed

subsection \<open>The codec\<close>

lemma digit_char_props:
  assumes "0 \<le> d" "d < 10"
  shows "is_digit (digit_char d) \<and> digit_val (digit_char d) = d \<and> digit_char d \<noteq> CHR ''-''"
proof -
  from assms have "d \<in> {0, 1, 2, 3, 4, 5, 6, 7, 8, 9}" by simp arith
  then show ?thesis
    by (auto simp: digit_char_def is_digit_def digit_val_def)
qed

lemma format_nat_digits: "0 \<le> n \<Longrightarrow> list_all is_digit (format_nat n) \<and> format_nat n \<noteq> []"
proof (induction n rule: format_nat.induct)
  case (1 n)
  show ?case
  proof (cases "n < 10")
    case True
    with "1.prems" show ?thesis by (simp add: format_nat.simps [of n] digit_char_props)
  next
    case False
    then have "0 \<le> n div 10" "0 \<le> n mod 10" "n mod 10 < 10" by simp_all
    with 1 False show ?thesis by (simp add: format_nat.simps [of n] digit_char_props)
  qed
qed

lemma foldl_format_nat:
  "0 \<le> n \<Longrightarrow> foldl (\<lambda>acc c. 10 * acc + digit_val c) 0 (format_nat n) = n"
proof (induction n rule: format_nat.induct)
  case (1 n)
  show ?case
  proof (cases "n < 10")
    case True
    with "1.prems" show ?thesis by (simp add: format_nat.simps [of n] digit_char_props)
  next
    case False
    then have "0 \<le> n div 10" "0 \<le> n mod 10" "n mod 10 < 10" by simp_all
    with 1 False show ?thesis by (simp add: format_nat.simps [of n] digit_char_props)
  qed
qed

lemma parse_format_nat: "0 \<le> n \<Longrightarrow> parse_nat (format_nat n) = Some n"
  by (simp add: parse_nat_def format_nat_digits foldl_format_nat)

lemma hd_format_nat: "0 \<le> n \<Longrightarrow> hd (format_nat n) \<noteq> CHR ''-''"
proof -
  assume "0 \<le> n"
  then have "is_digit (hd (format_nat n))"
    using format_nat_digits [of n] by (cases "format_nat n") auto
  then show ?thesis by (auto simp: is_digit_def)
qed

lemma decode_encode_int64: "decode_int64 (encode_int64 n) = (n, None)"
proof (cases "sint n < 0")
  case True
  have "- (2 ^ 63) \<le> sint n" using sint_ge [of n] by simp
  then have "- sint n \<le> 2 ^ 63" by simp
  with True show ?thesis
    by (simp add: decode_int64_def encode_int64_def parse_format_nat)
next
  case False
  have "sint n < 2 ^ 63" using sint_lt [of n] by simp
  with False show ?thesis
    by (simp add: decode_int64_def encode_int64_def parse_format_nat hd_format_nat
        format_nat_digits)
qed

lemma Get_after_Set_mem:
  assumes "ToAnyE tv (ToString tv v) = (v, None)"
  shows "fst (Get tk tv zero f (snd (Set tk tv f v e (hm st)))) = (v, None)"
proof -
  let ?h = "AList.update (ToString tk f) (ToString tv v) (hash_at st ''h'')"
  have "hash_at (remote (snd (Set tk tv f v e (hm st)))) ''h'' = ?h"
    by (simp add: Set_batch one_round_trip_def hm_def mem_def write_batch_def Let_def hash_at_def
        update_conv' split: prod.splits)
  moreover have "self (snd (Set tk tv f v e (hm st))) = \<lparr>Key = ''h'', Cli = mem\<rparr>"
    by (simp add: Set_batch one_round_trip_def hm_def split: prod.splits)
  moreover have "map_of ?h (ToString tk f) = Some (ToString tv v)"
    by (simp add: update_conv')
  ultimately show ?thesis
    using assms by (simp add: Get_def mem_def Let_def)
qed

text \<open>
  The modelled codec gives a value back: \<open>ToAnyE (ToString v) = (v, nil)\<close> at \<open>int64\<close>, at
  \<open>bool\<close> and at \<open>string\<close>, and on the in-memory client \<open>Get\<close> of a field after \<open>Set\<close> of it
  to \<open>v\<close> returns \<open>v\<close>. This is short of the round-trip law of the spec, which ranges over
  floats and composite types too: their wire format is in the missing package.
\<close>

lemma codec_round_trip:
  "ToAnyE typex_int64 (ToString typex_int64 n) = (n, None)
   \<and> ToAnyE typex_bool (ToString typex_bool b) = (b, None)
   \<and> ToAnyE typex_string (ToString typex_string s) = (s, None)
   \<and> fst (Get tk typex_int64 0 f (snd (Set tk typex_int64 f n e (hm st)))) = (n, None)
   \<and> fst (Get tk typex_bool False f (snd (Set tk typex_bool f b e (hm st)))) = (b, None)
   \<and> fst (Get tk typex_string [] f (snd (Set tk typex_string f s e (hm st)))) = (s, None)"
proof -
  have i: "ToAnyE typex_int64 (ToString typex_int64 n) = (n, None)"
    by (simp add: typex_int64_def decode_encode_int64)
  have j: "ToAnyE typex_bool (ToString typex_bool b) = (b, None)"
    by (simp add: typex_bool_def encode_bool_def decode_bool_def)
  have k: "ToAnyE typex_string (ToString typex_string s) = (s, None)"
    by (simp add: typex_string_def)
  show ?thesis
    by (intro conjI) (rule i j k Get_after_Set_mem [OF i] Get_after_Set_mem [OF j]
        Get_after_Set_mem [OF k])+
qed

subsection \<open>Range queries\<close>

lemma rangeByScoreInternal_query:
  "rangeByScoreInternal ovf ti tx minScore maxScore offset count desc w =
     storeQuery ovf tx desc
       \<lparr>Min_str = fst (scoreBounds ti minScore maxScore),
        Max_str = snd (scoreBounds ti minScore maxScore),
        Offset = offset, Count = count\<rparr> w"
  by (simp add: rangeByScoreInternal_def storeQuery_def range_reply_def redisZToElements_map
      Let_def split: prod.splits option.splits)

lemma storeQuery_self: "self (snd (storeQuery ovf tx desc opt w)) = self w"
  by (simp add: storeQuery_def split: prod.splits)

text \<open>
  C4. The four base range calls hand the adapter's stored \<open>Desc\<close> flag to
  \<open>rangeByScoreInternal\<close> as the direction, the four \<open>Rev\<close> calls hand it the negation of
  the flag, and after any of them (and after \<open>rangeByScoreInternal\<close> itself) the adapter is
  the one the call started with: \<open>Key\<close>, \<open>Cli\<close> and \<open>Desc\<close> are unchanged.
\<close>

theorem range_direction_and_frame:
  "RangeByScore ovf ti tx minScore maxScore w =
     rangeByScoreInternal ovf ti tx minScore maxScore 0 (- 1) (Desc (self w)) w
   \<and> RangeByScoreWithLimit ovf ti tx minScore maxScore offset count w =
     rangeByScoreInternal ovf ti tx minScore maxScore offset count (Desc (self w)) w
   \<and> RangeFromScore ovf ti tx minScore w =
     rangeByScoreInternal ovf ti tx minScore (- 1) 0 (- 1) (Desc (self w)) w
   \<and> RangeToScore ovf ti tx maxScore w =
     rangeByScoreInternal ovf ti tx (- 1) maxScore 0 (- 1) (Desc (self w)) w
   \<and> RangeByScoreRev ovf ti tx minScore maxScore w =
     rangeByScoreInternal ovf ti tx minScore maxScore 0 (- 1) (\<not> Desc (self w)) w
   \<and> RangeByScoreWithLimitRev ovf ti tx minScore maxScore offset count w =
     rangeByScoreInternal ovf ti tx minScore maxScore offset count (\<not> Desc (self w)) w
   \<and> RangeFromScoreRev ovf ti tx minScore w =
     rangeByScoreInternal ovf ti tx minScore (- 1) 0 (- 1) (\<not> Desc (self w)) w
   \<and> RangeToScoreRev ovf ti tx maxScore w =
     rangeByScoreInternal ovf ti tx (- 1) maxScore 0 (- 1) (\<not> Desc (self w)) w
   \<and> self (snd (rangeByScoreInternal ovf ti tx minScore maxScore offset count desc w)) = self w
   \<and> self (snd (RangeByScore ovf ti tx minScore maxScore w)) = self w
   \<and> self (snd (RangeByScoreWithLimit ovf ti tx minScore maxScore offset count w)) = self w
   \<and> self (snd (RangeFromScore ovf ti tx minScore w)) = self w
   \<and> self (snd (RangeToScore ovf ti tx maxScore w)) = self w
   \<and> self (snd (RangeByScoreRev ovf ti tx minScore maxScore w)) = self w
   \<and> self (snd (RangeByScoreWithLimitRev ovf ti tx minScore maxScore offset count w)) = self w
   \<and> self (snd (RangeFromScoreRev ovf ti tx minScore w)) = self w
   \<and> self (snd (RangeToScoreRev ovf ti tx maxScore w)) = self w"
  by (simp add: RangeByScore_def RangeByScoreWithLimit_def RangeFromScore_def RangeToScore_def
      RangeByScoreRev_def RangeByScoreWithLimitRev_def RangeFromScoreRev_def RangeToScoreRev_def
      rangeByScoreInternal_query storeQuery_self)

lemma scoreBounds_eq:
  "scoreBounds ti minScore maxScore =
     (if minScore = - 1 then ''-inf'' else ToString ti minScore,
      if maxScore = - 1 then ''+inf'' else ToString ti maxScore)"
  by (simp add: scoreBounds_def)

lemma storeQuery_ok:
  "range_reply desc opt w = ((zs, None), r)
    \<Longrightarrow> storeQuery ovf tx desc opt w = ((map (redisZToElement ovf tx) zs, None), w\<lparr>remote := r\<rparr>)"
  by (simp add: storeQuery_def)

text \<open>
  C3. \<open>rangeByScoreInternal\<close> asks the client for the range whose lower bound is \<open>-inf\<close>
  when \<open>minScore\<close> is the sentinel \<open>-1\<close> and whose upper bound is \<open>+inf\<close> when \<open>maxScore\<close>
  is the sentinel. A count of \<open>-1\<close> reaches the client as it is, and every entry of the
  client's answer comes back as an element: the adapter sets no limit of its own.
\<close>

theorem range_sentinels_and_count:
  "(range_reply desc
        \<lparr>Min_str = ''-inf'',
         Max_str = (if maxScore = - 1 then ''+inf'' else ToString ti maxScore),
         Offset = offset, Count = count\<rparr> w = ((zs, None), r)
      \<longrightarrow> rangeByScoreInternal ovf ti tx (- 1) maxScore offset count desc w
            = ((map (redisZToElement ovf tx) zs, None), w\<lparr>remote := r\<rparr>))
   \<and> (range_reply desc
        \<lparr>Min_str = (if minScore = - 1 then ''-inf'' else ToString ti minScore),
         Max_str = ''+inf'', Offset = offset, Count = count\<rparr> w = ((zs, None), r)
      \<longrightarrow> rangeByScoreInternal ovf ti tx minScore (- 1) offset count desc w
            = ((map (redisZToElement ovf tx) zs, None), w\<lparr>remote := r\<rparr>))
   \<and> (range_reply desc
        \<lparr>Min_str = (if minScore = - 1 then ''-inf'' else ToString ti minScore),
         Max_str = (if maxScore = - 1 then ''+inf'' else ToString ti maxScore),
         Offset = offset, Count = - 1\<rparr> w = ((zs, None), r)
      \<longrightarrow> rangeByScoreInternal ovf ti tx minScore maxScore offset (- 1) desc w
            = ((map (redisZToElement ovf tx) zs, None), w\<lparr>remote := r\<rparr>)
          \<and> length (fst (fst (rangeByScoreInternal ovf ti tx minScore maxScore offset (- 1) desc w)))
            = length zs)"
  by (simp add: rangeByScoreInternal_query scoreBounds_eq storeQuery_ok)

theorem range_sentinels_and_count_witness:
  "range_reply False \<lparr>Min_str = ''-inf'', Max_str = ''+inf'', Offset = 1, Count = - 1\<rparr>
       (zq False abc_store) = (([Z (Finite 2) ''b'', Z (Finite 3) ''c''], None), abc_store)
   \<and> rangeByScoreInternal ovf0 typex_int64 typex_string (- 1) (- 1) 1 (- 1) False (zq False abc_store)
       = ((map (redisZToElement ovf0 typex_string) [Z (Finite 2) ''b'', Z (Finite 3) ''c''], None),
          (zq False abc_store)\<lparr>remote := abc_store\<rparr>)
   \<and> length (fst (fst (rangeByScoreInternal ovf0 typex_int64 typex_string (- 1) (- 1) 1 (- 1) False
          (zq False abc_store)))) = 2"
proof -
  have a: "range_reply False \<lparr>Min_str = ''-inf'', Max_str = ''+inf'', Offset = 1, Count = - 1\<rparr>
       (zq False abc_store) = (([Z (Finite 2) ''b'', Z (Finite 3) ''c''], None), abc_store)"
    by code_simp
  note t = range_sentinels_and_count [of False "- 1" typex_int64 1 "- 1" "zq False abc_store"
      "[Z (Finite 2) ''b'', Z (Finite 3) ''c'']" abc_store ovf0 typex_string "- 1"]
  from t a show ?thesis by simp
qed

text \<open>
  C10. In every public range call a \<open>minScore\<close> of \<open>-1\<close> is sent as \<open>-inf\<close> and a \<open>maxScore\<close> of
  \<open>-1\<close> as \<open>+inf\<close>; \<open>RangeByScore(-1, 10)\<close> asks for the scores from \<open>-inf\<close> to 10. The bounds
  of any range request are \<open>-inf\<close> (respectively \<open>+inf\<close>) or the encoding of a score other
  than \<open>-1\<close>: no call sends \<open>-1\<close> as a finite bound.
\<close>

theorem minus_one_is_never_finite:
  "RangeByScore ovf ti tx (- 1) maxScore w =
     storeQuery ovf tx (Desc (self w))
       \<lparr>Min_str = ''-inf'', Max_str = (if maxScore = - 1 then ''+inf'' else ToString ti maxScore),
        Offset = 0, Count = - 1\<rparr> w
   \<and> RangeByScore ovf ti tx minScore (- 1) w =
     storeQuery ovf tx (Desc (self w))
       \<lparr>Min_str = (if minScore = - 1 then ''-inf'' else ToString ti minScore), Max_str = ''+inf'',
        Offset = 0, Count = - 1\<rparr> w
   \<and> RangeByScoreWithLimit ovf ti tx (- 1) maxScore offset count w =
     storeQuery ovf tx (Desc (self w))
       \<lparr>Min_str = ''-inf'', Max_str = (if maxScore = - 1 then ''+inf'' else ToString ti maxScore),
        Offset = offset, Count = count\<rparr> w
   \<and> RangeByScoreWithLimit ovf ti tx minScore (- 1) offset count w =
     storeQuery ovf tx (Desc (self w))
       \<lparr>Min_str = (if minScore = - 1 then ''-inf'' else ToString ti minScore), Max_str = ''+inf'',
        Offset = offset, Count = count\<rparr> w
   \<and> RangeFromScore ovf ti tx (- 1) w =
     storeQuery ovf tx (Desc (self w))
       \<lparr>Min_str = ''-inf'', Max_str = ''+inf'', Offset = 0, Count = - 1\<rparr> w
   \<and> RangeToScore ovf ti tx (- 1) w =
     storeQuery ovf tx (Desc (self w))
       \<lparr>Min_str = ''-inf'', Max_str = ''+inf'', Offset = 0, Count = - 1\<rparr> w
   \<and> RangeByScoreRev ovf ti tx (- 1) maxScore w =
     storeQuery ovf tx (\<not> Desc (self w))
       \<lparr>Min_str = ''-inf'', Max_str = (if maxScore = - 1 then ''+inf'' else ToString ti maxScore),
        Offset = 0, Count = - 1\<rparr> w
   \<and> RangeByScoreRev ovf ti tx minScore (- 1) w =
     storeQuery ovf tx (\<not> Desc (self w))
       \<lparr>Min_str = (if minScore = - 1 then ''-inf'' else ToString ti minScore), Max_str = ''+inf'',
        Offset = 0, Count = - 1\<rparr> w
   \<and> RangeByScoreWithLimitRev ovf ti tx (- 1) maxScore offset count w =
     storeQuery ovf tx (\<not> Desc (self w))
       \<lparr>Min_str = ''-inf'', Max_str = (if maxScore = - 1 then ''+inf'' else ToString ti maxScore),
        Offset = offset, Count = count\<rparr> w
   \<and> RangeByScoreWithLimitRev ovf ti tx minScore (- 1) offset count w =
     storeQuery ovf tx (\<not> Desc (self w))
       \<lparr>Min_str = (if minScore = - 1 then ''-inf'' else ToString ti minScore), Max_str = ''+inf'',
        Offset = offset, Count = count\<rparr> w
   \<and> RangeFromScoreRev ovf ti tx (- 1) w =
     storeQuery ovf tx (\<not> Desc (self w))
       \<lparr>Min_str = ''-inf'', Max_str = ''+inf'', Offset = 0, Count = - 1\<rparr> w
   \<and> RangeToScoreRev ovf ti tx (- 1) w =
     storeQuery ovf tx (\<not> Desc (self w))
       \<lparr>Min_str = ''-inf'', Max_str = ''+inf'', Offset = 0, Count = - 1\<rparr> w
   \<and> RangeByScore ovf ti tx (- 1) 10 w =
     storeQuery ovf tx (Desc (self w))
       \<lparr>Min_str = ''-inf'', Max_str = ToString ti 10, Offset = 0, Count = - 1\<rparr> w
   \<and> (\<exists>lo hi.
        rangeByScoreInternal ovf ti tx minScore maxScore offset count desc w =
          storeQuery ovf tx desc \<lparr>Min_str = lo, Max_str = hi, Offset = offset, Count = count\<rparr> w
        \<and> (lo = ''-inf'' \<or> (\<exists>m. m \<noteq> - 1 \<and> lo = ToString ti m))
        \<and> (hi = ''+inf'' \<or> (\<exists>m. m \<noteq> - 1 \<and> hi = ToString ti m)))"
proof -
  have ten: "(10 :: int64) \<noteq> - 1" by simp
  have last: "\<exists>lo hi.
        rangeByScoreInternal ovf ti tx minScore maxScore offset count desc w =
          storeQuery ovf tx desc \<lparr>Min_str = lo, Max_str = hi, Offset = offset, Count = count\<rparr> w
        \<and> (lo = ''-inf'' \<or> (\<exists>m. m \<noteq> - 1 \<and> lo = ToString ti m))
        \<and> (hi = ''+inf'' \<or> (\<exists>m. m \<noteq> - 1 \<and> hi = ToString ti m))"
  proof (intro exI conjI)
    show "rangeByScoreInternal ovf ti tx minScore maxScore offset count desc w =
          storeQuery ovf tx desc
            \<lparr>Min_str = fst (scoreBounds ti minScore maxScore),
             Max_str = snd (scoreBounds ti minScore maxScore),
             Offset = offset, Count = count\<rparr> w"
      by (rule rangeByScoreInternal_query)
    show "fst (scoreBounds ti minScore maxScore) = ''-inf''
          \<or> (\<exists>m. m \<noteq> - 1 \<and> fst (scoreBounds ti minScore maxScore) = ToString ti m)"
      by (auto simp: scoreBounds_eq)
    show "snd (scoreBounds ti minScore maxScore) = ''+inf''
          \<or> (\<exists>m. m \<noteq> - 1 \<and> snd (scoreBounds ti minScore maxScore) = ToString ti m)"
      by (auto simp: scoreBounds_eq)
  qed
  show ?thesis
    using last ten
    by (simp add: RangeByScore_def RangeByScoreWithLimit_def RangeFromScore_def RangeToScore_def
        RangeByScoreRev_def RangeByScoreWithLimitRev_def RangeFromScoreRev_def RangeToScoreRev_def
        rangeByScoreInternal_query scoreBounds_eq)
qed

subsection \<open>Absence\<close>

text \<open>
  C7. The client reports an absent field or member by the error \<open>redis.Nil\<close>. On that
  answer \<open>Get\<close> returns the zero value of \<open>V\<close> and a nil error, whereas \<open>Score\<close> returns 0
  and the error itself, which is not nil.
\<close>

theorem absence_get_score:
  "(HGet (Cli (self w)) (Key (self w)) (ToString tk field) (remote w) = ((val, Some RedisNil), r)
      \<longrightarrow> Get tk tv zero field w = ((zero, None), w\<lparr>remote := r\<rparr>))
   \<and> (ZScore (Cli (self v)) (Key (self v)) (ToString tx member) (remote v) = ((x, Some RedisNil), r')
      \<longrightarrow> Score_of ovf tx member v = ((0, Some RedisNil), v\<lparr>remote := r'\<rparr>))"
  by (simp add: Get_def Score_of_def)

theorem absence_get_score_witness:
  "HGet (Cli (self (hm empty_store))) (Key (self (hm empty_store))) (ToString typex_string ''f'')
       (remote (hm empty_store)) = (([], Some RedisNil), empty_store)
   \<and> Get typex_string typex_int64 0 ''f'' (hm empty_store)
       = ((0, None), (hm empty_store)\<lparr>remote := empty_store\<rparr>)
   \<and> ZScore (Cli (self (zq False empty_store))) (Key (self (zq False empty_store)))
       (ToString typex_string ''m'') (remote (zq False empty_store))
       = ((Finite 0, Some RedisNil), empty_store)
   \<and> Score_of ovf0 typex_string ''m'' (zq False empty_store)
       = ((0, Some RedisNil), (zq False empty_store)\<lparr>remote := empty_store\<rparr>)"
proof -
  have h: "HGet (Cli (self (hm empty_store))) (Key (self (hm empty_store)))
       (ToString typex_string ''f'') (remote (hm empty_store)) = (([], Some RedisNil), empty_store)"
    by code_simp
  have z: "ZScore (Cli (self (zq False empty_store))) (Key (self (zq False empty_store)))
       (ToString typex_string ''m'') (remote (zq False empty_store))
       = ((Finite 0, Some RedisNil), empty_store)"
    by code_simp
  note t = absence_get_score [of "hm empty_store" typex_string "''f''" "[]" empty_store
      typex_int64 0 "zq False empty_store" typex_string "''m''" "Finite 0" empty_store ovf0]
  from t h have g: "Get typex_string typex_int64 0 ''f'' (hm empty_store)
       = ((0, None), (hm empty_store)\<lparr>remote := empty_store\<rparr>)"
    by blast
  from t z have s: "Score_of ovf0 typex_string ''m'' (zq False empty_store)
       = ((0, Some RedisNil), (zq False empty_store)\<lparr>remote := empty_store\<rparr>)"
    by blast
  from h g z s show ?thesis by blast
qed

subsection \<open>Pops\<close>

lemma zset_at_put_empty: "zset_at (put_zset key [] st) key = []"
  by (simp add: zset_at_def put_zset_def delete_conv')

lemma pop_all_mem:
  assumes "int (length (zset_at st key)) \<le> sint n"
  shows "pop False key n st = ((zset_at st key, None), put_zset key [] st)"
    and "pop True key n st = ((rev (zset_at st key), None), put_zset key [] st)"
proof -
  from assms have "\<not> sint n < 0" "length (zset_at st key) \<le> nat (sint n)" by simp_all
  then show "pop False key n st = ((zset_at st key, None), put_zset key [] st)"
    and "pop True key n st = ((rev (zset_at st key), None), put_zset key [] st)"
    by (simp_all add: pop_def Let_def)
qed

lemma PopMulti_all_mem:
  assumes "int (length (zset_at st ''q'')) \<le> sint n"
  shows "fst (PopMinMulti ovf tx n (zq d st)) =
           (map (\<lambda>z. \<lparr>Member = ToAny tx (Z_Member z), Score = int64_of_float64 ovf (Z_Score z)\<rparr>)
              (zset_at st ''q''), None)"
    and "zset_at (remote (snd (PopMinMulti ovf tx n (zq d st)))) ''q'' = []"
    and "fst (PopMaxMulti ovf tx n (zq d st)) =
           (map (\<lambda>z. \<lparr>Member = ToAny tx (Z_Member z), Score = int64_of_float64 ovf (Z_Score z)\<rparr>)
              (rev (zset_at st ''q'')), None)"
    and "zset_at (remote (snd (PopMaxMulti ovf tx n (zq d st)))) ''q'' = []"
  using pop_all_mem [OF assms]
  by (simp_all add: PopMinMulti_def PopMaxMulti_def zq_def mem_def redisZToElements_map
      redisZToElement_def zset_at_put_empty rev_map)

text \<open>
  C8. When the client answers \<open>ZPopMin\<close> or \<open>ZPopMax\<close> for one element with no entry and
  no error, as it does on an empty container, \<open>PopMin\<close> and \<open>PopMax\<close> return a nil element
  and a nil error. \<open>PopMinMulti\<close> and \<open>PopMaxMulti\<close> return, for each entry of the client's
  answer and in its order, the element with that entry's member decoded and that entry's
  score. On the in-memory client, in any state of the store, a count at or beyond the size
  of the container yields the elements of the container, all of them and no other, lowest
  score first for \<open>PopMinMulti\<close> and highest first for \<open>PopMaxMulti\<close>, and leaves it empty.
\<close>

theorem pop_empty_and_short:
  "(ZPopMin (Cli (self w)) (Key (self w)) 1 (remote w) = (([], None), r)
      \<longrightarrow> PopMin ovf tx w = ((None, None), w\<lparr>remote := r\<rparr>))
   \<and> (ZPopMax (Cli (self w)) (Key (self w)) 1 (remote w) = (([], None), r)
      \<longrightarrow> PopMax ovf tx w = ((None, None), w\<lparr>remote := r\<rparr>))
   \<and> (ZPopMin (Cli (self v)) (Key (self v)) count (remote v) = ((zs, None), r')
      \<longrightarrow> PopMinMulti ovf tx count v
            = ((map (\<lambda>z. \<lparr>Member = ToAny tx (Z_Member z),
                            Score = int64_of_float64 ovf (Z_Score z)\<rparr>) zs, None),
               v\<lparr>remote := r'\<rparr>))
   \<and> (ZPopMax (Cli (self v)) (Key (self v)) count (remote v) = ((zs', None), r')
      \<longrightarrow> PopMaxMulti ovf tx count v
            = ((map (\<lambda>z. \<lparr>Member = ToAny tx (Z_Member z),
                            Score = int64_of_float64 ovf (Z_Score z)\<rparr>) zs', None),
               v\<lparr>remote := r'\<rparr>))
   \<and> (int (length (zset_at st ''q'')) \<le> sint n
      \<longrightarrow> fst (PopMinMulti ovf tx n (zq d st))
            = (map (\<lambda>z. \<lparr>Member = ToAny tx (Z_Member z),
                           Score = int64_of_float64 ovf (Z_Score z)\<rparr>) (zset_at st ''q''), None)
          \<and> zset_at (remote (snd (PopMinMulti ovf tx n (zq d st)))) ''q'' = []
          \<and> fst (PopMaxMulti ovf tx n (zq d st))
            = (map (\<lambda>z. \<lparr>Member = ToAny tx (Z_Member z),
                           Score = int64_of_float64 ovf (Z_Score z)\<rparr>) (rev (zset_at st ''q'')), None)
          \<and> zset_at (remote (snd (PopMaxMulti ovf tx n (zq d st)))) ''q'' = [])"
proof -
  have generic:
    "(ZPopMin (Cli (self w)) (Key (self w)) 1 (remote w) = (([], None), r)
      \<longrightarrow> PopMin ovf tx w = ((None, None), w\<lparr>remote := r\<rparr>))
   \<and> (ZPopMax (Cli (self w)) (Key (self w)) 1 (remote w) = (([], None), r)
      \<longrightarrow> PopMax ovf tx w = ((None, None), w\<lparr>remote := r\<rparr>))
   \<and> (ZPopMin (Cli (self v)) (Key (self v)) count (remote v) = ((zs, None), r')
      \<longrightarrow> PopMinMulti ovf tx count v
            = ((map (\<lambda>z. \<lparr>Member = ToAny tx (Z_Member z),
                            Score = int64_of_float64 ovf (Z_Score z)\<rparr>) zs, None),
               v\<lparr>remote := r'\<rparr>))
   \<and> (ZPopMax (Cli (self v)) (Key (self v)) count (remote v) = ((zs', None), r')
      \<longrightarrow> PopMaxMulti ovf tx count v
            = ((map (\<lambda>z. \<lparr>Member = ToAny tx (Z_Member z),
                            Score = int64_of_float64 ovf (Z_Score z)\<rparr>) zs', None),
               v\<lparr>remote := r'\<rparr>))"
    by (simp add: PopMin_def PopMax_def PopMinMulti_def PopMaxMulti_def redisZToElements_map
        redisZToElement_def)
  from generic PopMulti_all_mem [of st n ovf tx d] show ?thesis by blast
qed

theorem pop_empty_and_short_witness:
  "ZPopMin mem ''q'' 1 empty_store = (([], None), empty_store)
   \<and> PopMin ovf0 typex_string (zq False empty_store)
       = ((None, None), (zq False empty_store)\<lparr>remote := empty_store\<rparr>)
   \<and> ZPopMax mem ''q'' 1 empty_store = (([], None), empty_store)
   \<and> PopMax ovf0 typex_string (zq False empty_store)
       = ((None, None), (zq False empty_store)\<lparr>remote := empty_store\<rparr>)
   \<and> ZPopMin mem ''q'' 5 abc_store
       = (([Z (Finite 1) ''a'', Z (Finite 2) ''b'', Z (Finite 3) ''c''], None), empty_store)
   \<and> PopMinMulti ovf0 typex_string 5 (zq False abc_store)
       = (([\<lparr>Member = ''a'', Score = 1\<rparr>, \<lparr>Member = ''b'', Score = 2\<rparr>, \<lparr>Member = ''c'', Score = 3\<rparr>],
           None),
          (zq False abc_store)\<lparr>remote := empty_store\<rparr>)
   \<and> ZPopMax mem ''q'' 5 abc_store
       = (([Z (Finite 3) ''c'', Z (Finite 2) ''b'', Z (Finite 1) ''a''], None), empty_store)
   \<and> PopMaxMulti ovf0 typex_string 5 (zq False abc_store)
       = (([\<lparr>Member = ''c'', Score = 3\<rparr>, \<lparr>Member = ''b'', Score = 2\<rparr>, \<lparr>Member = ''a'', Score = 1\<rparr>],
           None),
          (zq False abc_store)\<lparr>remote := empty_store\<rparr>)
   \<and> int (length (zset_at abc_store ''q'')) \<le> sint (5 :: int64)
   \<and> zset_at (remote (snd (PopMinMulti ovf0 typex_string 5 (zq False abc_store)))) ''q'' = []"
proof -
  have a: "ZPopMin mem ''q'' 1 empty_store = (([], None), empty_store)" by code_simp
  have b: "ZPopMax mem ''q'' 1 empty_store = (([], None), empty_store)" by code_simp
  have c: "ZPopMin mem ''q'' 5 abc_store
       = (([Z (Finite 1) ''a'', Z (Finite 2) ''b'', Z (Finite 3) ''c''], None), empty_store)"
    by code_simp
  have d: "ZPopMax mem ''q'' 5 abc_store
       = (([Z (Finite 3) ''c'', Z (Finite 2) ''b'', Z (Finite 1) ''a''], None), empty_store)"
    by code_simp
  have e: "int (length (zset_at abc_store ''q'')) \<le> sint (5 :: int64)" by code_simp
  have up: "map (\<lambda>z. \<lparr>Member = ToAny typex_string (Z_Member z),
                       Score = int64_of_float64 ovf0 (Z_Score z)\<rparr>)
              [Z (Finite 1) ''a'', Z (Finite 2) ''b'', Z (Finite 3) ''c'']
            = [\<lparr>Member = ''a'', Score = 1\<rparr>, \<lparr>Member = ''b'', Score = 2\<rparr>, \<lparr>Member = ''c'', Score = 3\<rparr>]"
    by code_simp
  have down: "map (\<lambda>z. \<lparr>Member = ToAny typex_string (Z_Member z),
                       Score = int64_of_float64 ovf0 (Z_Score z)\<rparr>)
              [Z (Finite 3) ''c'', Z (Finite 2) ''b'', Z (Finite 1) ''a'']
            = [\<lparr>Member = ''c'', Score = 3\<rparr>, \<lparr>Member = ''b'', Score = 2\<rparr>, \<lparr>Member = ''a'', Score = 1\<rparr>]"
    by code_simp
  note t = pop_empty_and_short [of "zq False empty_store" empty_store ovf0 typex_string
      "zq False abc_store" 5 "[Z (Finite 1) ''a'', Z (Finite 2) ''b'', Z (Finite 3) ''c'']" empty_store
      "[Z (Finite 3) ''c'', Z (Finite 2) ''b'', Z (Finite 1) ''a'']" abc_store 5 False]
  from t e have f: "zset_at (remote (snd (PopMinMulti ovf0 typex_string 5 (zq False abc_store)))) ''q'' = []"
    by blast
  from t a b c d e f up down show ?thesis by (simp add: zq_def)
qed

subsection \<open>Scores\<close>

lemma bit_length_le: "a < 2 ^ k \<Longrightarrow> bit_length a \<le> k"
proof (induction k arbitrary: a)
  case 0
  then show ?case by (simp add: bit_length.simps [of a])
next
  case (Suc k)
  show ?case
  proof (cases "a \<le> 0")
    case True
    then show ?thesis by (simp add: bit_length.simps [of a])
  next
    case False
    from Suc.prems have "a div 2 < 2 ^ k" by simp
    then have "bit_length (a div 2) \<le> k" by (rule Suc.IH)
    with False show ?thesis by (simp add: bit_length.simps [of a])
  qed
qed

lemma round53_pow: "round53 9007199254740992 = 9007199254740992"
  by code_simp

lemma round53_neg_pow: "round53 (- 9007199254740992) = - 9007199254740992"
  by code_simp

lemma round53_exact:
  assumes "- (2 ^ 53) \<le> i" "i \<le> 2 ^ 53"
  shows "round53 i = i"
proof (cases "\<bar>i\<bar> < 2 ^ 53")
  case True
  then have "bit_length \<bar>i\<bar> \<le> 53" by (rule bit_length_le)
  then show ?thesis by (simp add: round53_def)
next
  case False
  with assms have "- 9007199254740992 \<le> i" "i \<le> 9007199254740992"
    "\<not> \<bar>i\<bar> < 9007199254740992"
    by simp_all
  then have "i = 9007199254740992 \<or> i = - 9007199254740992" by arith
  then show ?thesis using round53_pow round53_neg_pow by auto
qed

lemma int64_of_float64_of_int:
  "- (2 ^ 63) \<le> i \<Longrightarrow> i < 2 ^ 63 \<Longrightarrow> int64_of_float64 ovf (Finite (of_int i)) = word_of_int i"
  by (simp add: int64_of_float64_def)

lemma int64_float64_int64:
  assumes "- (2 ^ 53) \<le> sint s" "sint s \<le> 2 ^ 53"
  shows "int64_of_float64 ovf (float64_of_int64 s) = s"
proof -
  have lo: "- (2 ^ 63) \<le> sint s" using sint_ge [of s] by simp
  have hi: "sint s < 2 ^ 63" using sint_lt [of s] by simp
  have "float64_of_int64 s = Finite (of_int (sint s))"
    by (simp only: float64_of_int64_def round53_exact [OF assms])
  then have "int64_of_float64 ovf (float64_of_int64 s) = word_of_int (sint s)"
    by (simp only: int64_of_float64_of_int [OF lo hi])
  then show ?thesis by simp
qed

text \<open>Beyond 53 bits the low bits of a score are lost: \<open>2^53 + 1\<close> comes back as \<open>2^53\<close>.\<close>

lemma score_rounds_beyond_53_bits:
  "int64_of_float64 ovf0 (float64_of_int64 (2 ^ 53 + 1)) = 2 ^ 53"
  by code_simp

lemma find_zinsert:
  "P z \<Longrightarrow> \<forall>y \<in> set ys. \<not> P y \<Longrightarrow> find P (zinsert z ys) = Some z"
  by (induction ys) auto

lemma Score_after_Add_mem:
  assumes "- (2 ^ 53) \<le> sint s" "sint s \<le> 2 ^ 53"
  shows "fst (Score_of ovf tx m (snd (Add tx m s e (zq d st)))) = (s, None)"
proof -
  let ?z = "Z (float64_of_int64 s) (ToString tx m)"
  let ?zs = "zadd1 ?z (zset_at st ''q'')"
  have ne: "?zs \<noteq> []"
    by (cases "filter (\<lambda>y. Z_Member y \<noteq> ToString tx m) (zset_at st ''q'')")
      (simp_all add: zadd1_def)
  have fin: "float64_of_int64 s \<noteq> NaN" by (simp add: float64_of_int64_def)
  have "zset_at (remote (snd (Add tx m s e (zq d st)))) ''q'' = ?zs"
    using ne fin
    by (simp add: Add_batch one_round_trip_def zq_def mem_def write_batch_def Let_def zset_at_def
        put_zset_def update_conv' split: prod.splits)
  moreover have "self (snd (Add tx m s e (zq d st))) = \<lparr>Key = ''q'', Cli = mem, Desc = d\<rparr>"
    by (simp add: Add_batch one_round_trip_def zq_def split: prod.splits)
  moreover have "find (\<lambda>z. Z_Member z = ToString tx m) ?zs = Some ?z"
    unfolding zadd1_def by (rule find_zinsert) auto
  ultimately show ?thesis
    using int64_float64_int64 [OF assms, of ovf] by (simp add: Score_of_def mem_def Let_def)
qed

text \<open>
  C9. For a score \<open>s\<close> with \<open>|s| \<le> 2^53\<close>, converting to \<open>float64\<close> and back to \<open>int64\<close> gives
  \<open>s\<close>. \<open>Add\<close> and \<open>AddMulti\<close> send the member with the score \<open>float64(s)\<close>;
  \<open>redisZToElement\<close> turns an entry of that score into an element of score \<open>s\<close>; and when the
  client answers \<open>ZScore\<close> with that score, \<open>Score\<close> returns \<open>s\<close> and no error. On the in-memory
  client, in any state of the store, \<open>Score\<close> of a member after \<open>Add\<close> of it with the score
  \<open>s\<close> returns \<open>s\<close>.
\<close>

theorem score_survives_conversions:
  assumes "- (2 ^ 53) \<le> sint s" "sint s \<le> 2 ^ 53"
  shows
  "int64_of_float64 ovf (float64_of_int64 s) = s
   \<and> Add tx member s expire w =
       one_round_trip
         (write_batch (ZAdd (Key (self w)) [Z (float64_of_int64 s) (ToString tx member)])
            (Key (self w)) expire) w
   \<and> AddMulti tx [\<lparr>Member = member, Score = s\<rparr>] expire w =
       one_round_trip
         (write_batch (ZAdd (Key (self w)) [Z (float64_of_int64 s) (ToString tx member)])
            (Key (self w)) expire) w
   \<and> redisZToElement ovf tx (Z (float64_of_int64 s) m) = \<lparr>Member = ToAny tx m, Score = s\<rparr>
   \<and> (ZScore (Cli (self v)) (Key (self v)) (ToString tx member) (remote v)
         = ((float64_of_int64 s, None), r)
       \<longrightarrow> Score_of ovf tx member v = ((s, None), v\<lparr>remote := r\<rparr>))
   \<and> fst (Score_of ovf tx member (snd (Add tx member s expire (zq d st)))) = (s, None)"
  using int64_float64_int64 [OF assms, of ovf] Score_after_Add_mem [OF assms, of ovf tx member expire d st]
  by (simp add: Add_batch AddMulti_batch redisZToElement_def Score_of_def)

theorem score_survives_conversions_witness:
  "- (2 ^ 53) \<le> sint (2 ^ 53 :: int64) \<and> sint (2 ^ 53 :: int64) \<le> 2 ^ 53
   \<and> int64_of_float64 ovf0 (float64_of_int64 (2 ^ 53)) = 2 ^ 53
   \<and> ZScore (Cli (self (snd (Add typex_string ''a'' (2 ^ 53) 0 (zq False empty_store)))))
         (Key (self (snd (Add typex_string ''a'' (2 ^ 53) 0 (zq False empty_store)))))
         (ToString typex_string ''a'')
         (remote (snd (Add typex_string ''a'' (2 ^ 53) 0 (zq False empty_store))))
       = ((float64_of_int64 (2 ^ 53), None),
          remote (snd (Add typex_string ''a'' (2 ^ 53) 0 (zq False empty_store))))
   \<and> fst (Score_of ovf0 typex_string ''a''
            (snd (Add typex_string ''a'' (2 ^ 53) 0 (zq False empty_store))))
       = (2 ^ 53, None)"
proof -
  let ?w = "snd (Add typex_string ''a'' (2 ^ 53) 0 (zq False empty_store))"
  have a: "- (2 ^ 53) \<le> sint (2 ^ 53 :: int64)" by simp
  have b: "sint (2 ^ 53 :: int64) \<le> 2 ^ 53" by simp
  have c: "ZScore (Cli (self ?w)) (Key (self ?w)) (ToString typex_string ''a'') (remote ?w)
      = ((float64_of_int64 (2 ^ 53), None), remote ?w)"
    by code_simp
  note t = score_survives_conversions [OF a b, of ovf0 typex_string "''a''" 0 "zq False empty_store"
      "''a''" ?w "remote ?w"]
  from t have d: "int64_of_float64 ovf0 (float64_of_int64 (2 ^ 53)) = 2 ^ 53" by blast
  from t c have "Score_of ovf0 typex_string ''a'' ?w = ((2 ^ 53, None), ?w\<lparr>remote := remote ?w\<rparr>)"
    by blast
  then have e: "fst (Score_of ovf0 typex_string ''a'' ?w) = (2 ^ 53, None)"
    by (simp only: fst_conv)
  from a b c d e show ?thesis by blast
qed

subsection \<open>Decoding\<close>

lemma Keys_loop_error:
  "s \<in> set keys \<Longrightarrow> snd (ToAnyE tk s) \<noteq> None \<Longrightarrow>
     \<exists>e s'. s' \<in> set keys \<and> snd (ToAnyE tk s') = Some e \<and> Keys_loop tk keys acc = ([], Some e)"
proof (induction keys arbitrary: acc)
  case Nil
  then show ?case by simp
next
  case (Cons k keys)
  obtain key err where d: "ToAnyE tk k = (key, err)" by (cases "ToAnyE tk k")
  show ?case
  proof (cases err)
    case (Some e)
    with d show ?thesis by (intro exI [of _ e] exI [of _ k]) simp
  next
    case None
    with d Cons.prems have "s \<in> set keys" by auto
    from Cons.IH [OF this Cons.prems(2), of "acc @ [key]"] d None show ?thesis by auto
  qed
qed

lemma Values_loop_error:
  "s \<in> set vals \<Longrightarrow> snd (ToAnyE tv s) \<noteq> None \<Longrightarrow>
     \<exists>e s'. s' \<in> set vals \<and> snd (ToAnyE tv s') = Some e \<and> Values_loop tv vals acc = ([], Some e)"
proof (induction vals arbitrary: acc)
  case Nil
  then show ?case by simp
next
  case (Cons v vals)
  obtain val err where d: "ToAnyE tv v = (val, err)" by (cases "ToAnyE tv v")
  show ?case
  proof (cases err)
    case (Some e)
    with d show ?thesis by (intro exI [of _ e] exI [of _ v]) simp
  next
    case None
    with d Cons.prems have "s \<in> set vals" by auto
    from Cons.IH [OF this Cons.prems(2), of "acc @ [val]"] d None show ?thesis by auto
  qed
qed

lemma GetAll_loop_error:
  "(k, v) \<in> set kvs \<Longrightarrow> snd (ToAnyE tk k) \<noteq> None \<or> snd (ToAnyE tv v) \<noteq> None \<Longrightarrow>
     \<exists>e k' v'. (k', v') \<in> set kvs \<and> (snd (ToAnyE tk k') = Some e \<or> snd (ToAnyE tv v') = Some e)
        \<and> GetAll_loop tk tv kvs acc = ([], Some e)"
proof (induction kvs arbitrary: acc)
  case Nil
  then show ?case by simp
next
  case (Cons p kvs)
  obtain k0 v0 where p: "p = (k0, v0)" by (cases p)
  obtain key ek where dk: "ToAnyE tk k0 = (key, ek)" by (cases "ToAnyE tk k0")
  obtain val ev where dv: "ToAnyE tv v0 = (val, ev)" by (cases "ToAnyE tv v0")
  show ?case
  proof (cases ek)
    case (Some e)
    with p dk show ?thesis by (intro exI [of _ e] exI [of _ k0] exI [of _ v0]) simp
  next
    case kn: None
    show ?thesis
    proof (cases ev)
      case (Some e)
      with p dk dv kn show ?thesis by (intro exI [of _ e] exI [of _ k0] exI [of _ v0]) simp
    next
      case None
      with p dk dv kn Cons.prems have "(k, v) \<in> set kvs" by auto
      from Cons.IH [OF this Cons.prems(2), of "AList.update key val acc"] p dk dv kn None
      show ?thesis by auto
    qed
  qed
qed

lemma GetMulti_loop_error:
  "Some s \<in> set vals \<Longrightarrow> snd (ToAnyE tv s) \<noteq> None \<Longrightarrow> i + length vals \<le> length flds \<Longrightarrow>
     \<exists>e s'. Some s' \<in> set vals \<and> snd (ToAnyE tv s') = Some e
        \<and> GetMulti_loop tv flds i vals acc = Some ([], Some e)"
proof (induction vals arbitrary: acc i)
  case Nil
  then show ?case by simp
next
  case (Cons x vals)
  show ?case
  proof (cases x)
    case None
    with Cons.prems have "Some s \<in> set vals" "Suc i + length vals \<le> length flds" by auto
    from Cons.IH [OF this(1) Cons.prems(2) this(2), of acc] None show ?thesis by auto
  next
    case (Some str)
    obtain v err where d: "ToAnyE tv str = (v, err)" by (cases "ToAnyE tv str")
    show ?thesis
    proof (cases err)
      case e: (Some e)
      with Some d show ?thesis by (intro exI [of _ e] exI [of _ str]) simp
    next
      case None
      with Some d Cons.prems have a: "Some s \<in> set vals" "Suc i + length vals \<le> length flds"
        "i < length flds"
        by auto
      from Cons.IH [OF a(1) Cons.prems(2) a(2), of "AList.update (flds ! i) v acc"] Some d None a(3)
      show ?thesis by auto
    qed
  qed
qed

lemma Keys_error:
  assumes "HKeys (Cli (self w)) (Key (self w)) (remote w) = ((keys, None), r)"
    and "s \<in> set keys" and "snd (ToAnyE tk s) \<noteq> None"
  shows "\<exists>e s'. s' \<in> set keys \<and> snd (ToAnyE tk s') = Some e
           \<and> Keys tk w = (([], Some e), w\<lparr>remote := r\<rparr>)"
  using Keys_loop_error [OF assms(2,3), of "[]"] assms(1) by (simp add: Keys_def)

lemma Values_error:
  assumes "HVals (Cli (self w)) (Key (self w)) (remote w) = ((vals, None), r)"
    and "s \<in> set vals" and "snd (ToAnyE tv s) \<noteq> None"
  shows "\<exists>e s'. s' \<in> set vals \<and> snd (ToAnyE tv s') = Some e
           \<and> Values tv w = (([], Some e), w\<lparr>remote := r\<rparr>)"
  using Values_loop_error [OF assms(2,3), of "[]"] assms(1) by (simp add: Values_def)

lemma GetAll_error:
  assumes "HGetAll (Cli (self w)) (Key (self w)) (remote w) = ((kvs, None), r)"
    and "(k, v) \<in> set kvs" and "snd (ToAnyE tk k) \<noteq> None \<or> snd (ToAnyE tv v) \<noteq> None"
  shows "\<exists>e k' v'. (k', v') \<in> set kvs \<and> (snd (ToAnyE tk k') = Some e \<or> snd (ToAnyE tv v') = Some e)
           \<and> GetAll tk tv w = (([], Some e), w\<lparr>remote := r\<rparr>)"
  using GetAll_loop_error [OF assms(2,3), of "[]"] assms(1) by (simp add: GetAll_def)

lemma GetMulti_error:
  assumes "HMGet (Cli (self w)) (Key (self w)) (map (ToString tk) flds) (remote w) = ((vals, None), r)"
    and "flds \<noteq> []" and "length vals \<le> length flds"
    and "Some s \<in> set vals" and "snd (ToAnyE tv s) \<noteq> None"
  shows "\<exists>e s'. Some s' \<in> set vals \<and> snd (ToAnyE tv s') = Some e
           \<and> GetMulti tk tv flds w = Some (([], Some e), w\<lparr>remote := r\<rparr>)"
proof -
  from assms(3) have "0 + length vals \<le> length flds" by simp
  from GetMulti_loop_error [OF assms(4,5) this, of "[]"] assms(1,2) show ?thesis
    by (auto simp: GetMulti_def foldl_snoc_map)
qed

lemma Get_decodes:
  "HGet (Cli (self w)) (Key (self w)) (ToString tk field) (remote w) = ((val, None), r)
    \<Longrightarrow> Get tk tv zero field w = (ToAnyE tv val, w\<lparr>remote := r\<rparr>)"
  by (simp add: Get_def)

lemma range_error_is_clients:
  "snd (fst (rangeByScoreInternal ovf ti tx minScore maxScore offset count desc q)) =
     snd (fst (range_reply desc
       \<lparr>Min_str = fst (scoreBounds ti minScore maxScore),
        Max_str = snd (scoreBounds ti minScore maxScore), Offset = offset, Count = count\<rparr> q))"
  by (simp add: rangeByScoreInternal_query storeQuery_def split: prod.splits)

lemma pop_error_is_clients:
  "snd (fst (PopMin ovf tx q)) = snd (fst (ZPopMin (Cli (self q)) (Key (self q)) 1 (remote q)))
   \<and> snd (fst (PopMax ovf tx q)) = snd (fst (ZPopMax (Cli (self q)) (Key (self q)) 1 (remote q)))
   \<and> snd (fst (PopMinMulti ovf tx n q)) = snd (fst (ZPopMin (Cli (self q)) (Key (self q)) n (remote q)))
   \<and> snd (fst (PopMaxMulti ovf tx n q)) = snd (fst (ZPopMax (Cli (self q)) (Key (self q)) n (remote q)))"
  by (simp add: PopMin_def PopMax_def PopMinMulti_def PopMaxMulti_def Let_def
      split: prod.splits option.splits list.splits)


text \<open>
  The two families of decoding side by side. In \<open>HashMap\<close> a stored string that fails to
  decode is an error of the call: \<open>Get\<close> returns what \<open>ToAnyE\<close> returns, and \<open>GetMulti\<close> (on as
  many values as fields were asked for), \<open>GetAll\<close>, \<open>Keys\<close> and \<open>Values\<close> return the error of a
  failing entry and no data. In \<open>ZQueue\<close> the error of a range or pop call is the client's.
\<close>

lemma decode_paths:
  "(HGet (Cli (self w)) (Key (self w)) (ToString tk field) (remote w) = ((val, None), r1)
      \<longrightarrow> Get tk tv zero field w = (ToAnyE tv val, w\<lparr>remote := r1\<rparr>))
   \<and> (HMGet (Cli (self w)) (Key (self w)) (map (ToString tk) flds) (remote w) = ((vals, None), r2)
        \<and> flds \<noteq> [] \<and> length vals \<le> length flds \<and> Some s2 \<in> set vals \<and> snd (ToAnyE tv s2) \<noteq> None
      \<longrightarrow> (\<exists>e s'. Some s' \<in> set vals \<and> snd (ToAnyE tv s') = Some e
             \<and> GetMulti tk tv flds w = Some (([], Some e), w\<lparr>remote := r2\<rparr>)))
   \<and> (HGetAll (Cli (self w)) (Key (self w)) (remote w) = ((kvs, None), r3)
        \<and> (k, v) \<in> set kvs \<and> (snd (ToAnyE tk k) \<noteq> None \<or> snd (ToAnyE tv v) \<noteq> None)
      \<longrightarrow> (\<exists>e k' v'. (k', v') \<in> set kvs
             \<and> (snd (ToAnyE tk k') = Some e \<or> snd (ToAnyE tv v') = Some e)
             \<and> GetAll tk tv w = (([], Some e), w\<lparr>remote := r3\<rparr>)))
   \<and> (HKeys (Cli (self w)) (Key (self w)) (remote w) = ((keys, None), r4)
        \<and> s4 \<in> set keys \<and> snd (ToAnyE tk s4) \<noteq> None
      \<longrightarrow> (\<exists>e s'. s' \<in> set keys \<and> snd (ToAnyE tk s') = Some e
             \<and> Keys tk w = (([], Some e), w\<lparr>remote := r4\<rparr>)))
   \<and> (HVals (Cli (self w)) (Key (self w)) (remote w) = ((vs, None), r5)
        \<and> s5 \<in> set vs \<and> snd (ToAnyE tv s5) \<noteq> None
      \<longrightarrow> (\<exists>e s'. s' \<in> set vs \<and> snd (ToAnyE tv s') = Some e
             \<and> Values tv w = (([], Some e), w\<lparr>remote := r5\<rparr>)))
   \<and> snd (fst (rangeByScoreInternal ovf ti tx minScore maxScore offset count desc q)) =
       snd (fst (range_reply desc
         \<lparr>Min_str = (if minScore = - 1 then ''-inf'' else ToString ti minScore),
          Max_str = (if maxScore = - 1 then ''+inf'' else ToString ti maxScore),
          Offset = offset, Count = count\<rparr> q))
   \<and> snd (fst (PopMin ovf tx q)) = snd (fst (ZPopMin (Cli (self q)) (Key (self q)) 1 (remote q)))
   \<and> snd (fst (PopMax ovf tx q)) = snd (fst (ZPopMax (Cli (self q)) (Key (self q)) 1 (remote q)))
   \<and> snd (fst (PopMinMulti ovf tx n q))
       = snd (fst (ZPopMin (Cli (self q)) (Key (self q)) n (remote q)))
   \<and> snd (fst (PopMaxMulti ovf tx n q))
       = snd (fst (ZPopMax (Cli (self q)) (Key (self q)) n (remote q)))"
proof -
  have range:
    "snd (fst (rangeByScoreInternal ovf ti tx minScore maxScore offset count desc q)) =
       snd (fst (range_reply desc
         \<lparr>Min_str = (if minScore = - 1 then ''-inf'' else ToString ti minScore),
          Max_str = (if maxScore = - 1 then ''+inf'' else ToString ti maxScore),
          Offset = offset, Count = count\<rparr> q))"
    using range_error_is_clients [of ovf ti tx minScore maxScore offset count desc q]
    by (simp add: scoreBounds_eq)
  show ?thesis
    using Get_decodes [of w tk field val r1 tv zero]
      GetMulti_error [of w tk flds vals r2 s2 tv]
      GetAll_error [of w kvs r3 k v tk tv]
      Keys_error [of w keys r4 s4 tk]
      Values_error [of w vs r5 s5 tv]
      range pop_error_is_clients [of ovf tx q n]
    by blast
qed

lemma decode_paths_example:
  "HGet mem ''h'' ''7'' odd_store = ((''abc'', None), odd_store)
   \<and> Get typex_int64 typex_int64 0 7 (hm odd_store) = ((0, Some ConversionError), hm odd_store)
   \<and> HMGet mem ''h'' [''7''] odd_store = (([Some ''abc''], None), odd_store)
   \<and> [7 :: int64] \<noteq> [] \<and> length [Some ''abc''] \<le> length [7 :: int64]
   \<and> Some ''abc'' \<in> set [Some ''abc''] \<and> snd (ToAnyE typex_int64 ''abc'') \<noteq> None
   \<and> (\<exists>e s'. Some s' \<in> set [Some ''abc''] \<and> snd (ToAnyE typex_int64 s') = Some e
         \<and> GetMulti typex_int64 typex_int64 [7] (hm odd_store) = Some (([], Some e), hm odd_store))
   \<and> HGetAll mem ''h'' odd_store = (([(''7'', ''abc''), (''x'', ''1'')], None), odd_store)
   \<and> (\<exists>e k' v'. (k', v') \<in> set [(''7'', ''abc''), (''x'', ''1'')]
         \<and> (snd (ToAnyE typex_int64 k') = Some e \<or> snd (ToAnyE typex_int64 v') = Some e)
         \<and> GetAll typex_int64 typex_int64 (hm odd_store) = (([], Some e), hm odd_store))
   \<and> HKeys mem ''h'' odd_store = (([''7'', ''x''], None), odd_store)
   \<and> snd (ToAnyE typex_int64 ''x'') \<noteq> None
   \<and> (\<exists>e s'. s' \<in> set [''7'', ''x''] \<and> snd (ToAnyE typex_int64 s') = Some e
         \<and> Keys typex_int64 (hm odd_store) = (([], Some e), hm odd_store))
   \<and> HVals mem ''h'' odd_store = (([''abc'', ''1''], None), odd_store)
   \<and> (\<exists>e s'. s' \<in> set [''abc'', ''1''] \<and> snd (ToAnyE typex_int64 s') = Some e
         \<and> Values typex_int64 (hm odd_store) = (([], Some e), hm odd_store))"
proof -
  have e7: "ToString typex_int64 7 = ''7''" by code_simp
  have dabc: "ToAnyE typex_int64 ''abc'' = (0, Some ConversionError)" by code_simp
  have dx: "ToAnyE typex_int64 ''x'' = (0, Some ConversionError)" by code_simp
  have a: "HGet mem ''h'' ''7'' odd_store = ((''abc'', None), odd_store)" by code_simp
  have b: "HMGet mem ''h'' [''7''] odd_store = (([Some ''abc''], None), odd_store)" by code_simp
  have c: "HGetAll mem ''h'' odd_store = (([(''7'', ''abc''), (''x'', ''1'')], None), odd_store)"
    by code_simp
  have d: "HKeys mem ''h'' odd_store = (([''7'', ''x''], None), odd_store)" by code_simp
  have e: "HVals mem ''h'' odd_store = (([''abc'', ''1''], None), odd_store)" by code_simp
  have w: "(hm odd_store)\<lparr>remote := odd_store\<rparr> = hm odd_store" by (simp add: hm_def)
  have s: "self (hm odd_store) = \<lparr>Key = ''h'', Cli = mem\<rparr>" "remote (hm odd_store) = odd_store"
    by (simp_all add: hm_def)
  note t = decode_paths [of "hm odd_store" typex_int64 7 "''abc''" odd_store typex_int64 0
      "[7]" "[Some ''abc'']" odd_store "''abc''"
      "[(''7'', ''abc''), (''x'', ''1'')]" odd_store "''7''" "''abc''"
      "[''7'', ''x'']" odd_store "''x''" "[''abc'', ''1'']" odd_store "''abc''"
      ovf0 typex_int64 typex_int64 0 0 0 0 False "zq False empty_store" 0]
  from t a have g1: "Get typex_int64 typex_int64 0 7 (hm odd_store) = ((0, Some ConversionError), hm odd_store)"
    by (simp add: s e7 dabc w)
  from t b have g2: "\<exists>e s'. Some s' \<in> set [Some ''abc''] \<and> snd (ToAnyE typex_int64 s') = Some e
         \<and> GetMulti typex_int64 typex_int64 [7] (hm odd_store) = Some (([], Some e), hm odd_store)"
    by (simp add: s e7 dabc w)
  from t c have g3: "\<exists>e k' v'. (k', v') \<in> set [(''7'', ''abc''), (''x'', ''1'')]
         \<and> (snd (ToAnyE typex_int64 k') = Some e \<or> snd (ToAnyE typex_int64 v') = Some e)
         \<and> GetAll typex_int64 typex_int64 (hm odd_store) = (([], Some e), hm odd_store)"
    by (simp add: s dabc w)
  from t d have g4: "\<exists>e s'. s' \<in> set [''7'', ''x''] \<and> snd (ToAnyE typex_int64 s') = Some e
         \<and> Keys typex_int64 (hm odd_store) = (([], Some e), hm odd_store)"
    by (simp add: s dx w)
  from t e have g5: "\<exists>e s'. s' \<in> set [''abc'', ''1''] \<and> snd (ToAnyE typex_int64 s') = Some e
         \<and> Values typex_int64 (hm odd_store) = (([], Some e), hm odd_store)"
    by (simp add: s dabc w)
  from a b c d e g1 g2 g3 g4 g5 dabc dx show ?thesis by simp
qed

text \<open>
  C6. A failing decode is an error of the call in \<open>HashMap\<close>: \<open>Keys\<close> on a map with a field
  that is no integer returns the conversion error and no data. In \<open>ZQueue\<close> it is not.
  \<open>redisZToElement\<close> decodes with \<open>ToAny\<close>, which has no error to return: whatever \<open>ToAny\<close>
  is, a range call over members that are no integers returns an element for each of them
  and a nil error, and \<open>PopMin\<close> takes the member out of the store and returns an element
  and a nil error. The error of any range or pop call is the client's error, nothing else.
\<close>

theorem zqueue_decode_failure_is_silent:
  "snd (ToAnyE typex_int64 ''a'') = Some ConversionError
   \<and> fst (Keys typex_int64 (hm odd_store)) = ([], Some ConversionError)
   \<and> fst (RangeByScore ovf typex_int64 tx 1 3 (zq False abc_store))
       = ([\<lparr>Member = ToAny tx ''a'', Score = 1\<rparr>, \<lparr>Member = ToAny tx ''b'', Score = 2\<rparr>,
           \<lparr>Member = ToAny tx ''c'', Score = 3\<rparr>], None)
   \<and> fst (PopMin ovf tx (zq False abc_store)) = (Some \<lparr>Member = ToAny tx ''a'', Score = 1\<rparr>, None)
   \<and> zset_at (remote (snd (PopMin ovf tx (zq False abc_store)))) ''q''
       = [Z (Finite 2) ''b'', Z (Finite 3) ''c'']
   \<and> snd (fst (rangeByScoreInternal ovf ti tx minScore maxScore offset count desc q)) =
       snd (fst (range_reply desc
         \<lparr>Min_str = (if minScore = - 1 then ''-inf'' else ToString ti minScore),
          Max_str = (if maxScore = - 1 then ''+inf'' else ToString ti maxScore),
          Offset = offset, Count = count\<rparr> q))
   \<and> snd (fst (PopMin ovf tx q)) = snd (fst (ZPopMin (Cli (self q)) (Key (self q)) 1 (remote q)))
   \<and> snd (fst (PopMax ovf tx q)) = snd (fst (ZPopMax (Cli (self q)) (Key (self q)) 1 (remote q)))
   \<and> snd (fst (PopMinMulti ovf tx n q))
       = snd (fst (ZPopMin (Cli (self q)) (Key (self q)) n (remote q)))
   \<and> snd (fst (PopMaxMulti ovf tx n q))
       = snd (fst (ZPopMax (Cli (self q)) (Key (self q)) n (remote q)))"
proof -
  have a: "snd (ToAnyE typex_int64 ''a'') = Some ConversionError" by code_simp
  have b: "fst (Keys typex_int64 (hm odd_store)) = ([], Some ConversionError)" by code_simp
  have reply: "range_reply False \<lparr>Min_str = ToString typex_int64 1, Max_str = ToString typex_int64 3,
        Offset = 0, Count = - 1\<rparr> (zq False abc_store)
      = (([Z (Finite 1) ''a'', Z (Finite 2) ''b'', Z (Finite 3) ''c''], None), abc_store)"
    by code_simp
  have s1: "int64_of_float64 ovf (Finite 1) = 1" "int64_of_float64 ovf (Finite 2) = 2"
    "int64_of_float64 ovf (Finite 3) = 3"
    by (simp_all add: int64_of_float64_def)
  have c: "fst (RangeByScore ovf typex_int64 tx 1 3 (zq False abc_store))
       = ([\<lparr>Member = ToAny tx ''a'', Score = 1\<rparr>, \<lparr>Member = ToAny tx ''b'', Score = 2\<rparr>,
           \<lparr>Member = ToAny tx ''c'', Score = 3\<rparr>], None)"
    using reply
    by (simp add: RangeByScore_def rangeByScoreInternal_query scoreBounds_eq storeQuery_def zq_def
        redisZToElement_def s1)
  have popr: "ZPopMin mem ''q'' 1 abc_store
      = (([Z (Finite 1) ''a''], None), put_zset ''q'' [Z (Finite 2) ''b'', Z (Finite 3) ''c''] abc_store)"
    by code_simp
  have left: "zset_at (put_zset ''q'' [Z (Finite 2) ''b'', Z (Finite 3) ''c''] abc_store) ''q''
      = [Z (Finite 2) ''b'', Z (Finite 3) ''c'']"
    by code_simp
  have d: "fst (PopMin ovf tx (zq False abc_store)) = (Some \<lparr>Member = ToAny tx ''a'', Score = 1\<rparr>, None)"
    using popr by (simp add: PopMin_def zq_def redisZToElement_def s1)
  have e: "zset_at (remote (snd (PopMin ovf tx (zq False abc_store)))) ''q''
       = [Z (Finite 2) ''b'', Z (Finite 3) ''c'']"
    using popr left by (simp add: PopMin_def zq_def)
  have f: "snd (fst (rangeByScoreInternal ovf ti tx minScore maxScore offset count desc q)) =
       snd (fst (range_reply desc
         \<lparr>Min_str = (if minScore = - 1 then ''-inf'' else ToString ti minScore),
          Max_str = (if maxScore = - 1 then ''+inf'' else ToString ti maxScore),
          Offset = offset, Count = count\<rparr> q))"
    using range_error_is_clients [of ovf ti tx minScore maxScore offset count desc q]
    by (simp add: scoreBounds_eq)
  from a b c d e f pop_error_is_clients [of ovf tx q n] show ?thesis by blast
qed

end
